theory Spec2Isabelle
  imports Complex_Main
begin

section \<open>Errors and Python arithmetic\<close>

text \<open>
  The layer of \<^verbatim>\<open>multi_head_attention_3d.py\<close> is modelled as it is written. Every
  exception the source or the tensor runtime can raise is a value: a computation returns
  \<open>error + 'a\<close>, with \<open>Inl\<close> for the exception. A \<open>ValueError\<close> carries which message
  it was raised with, so that the three validation checks of the constructor can be told
  apart from one another and from the runtime's own \<open>ValueError\<close>s. The tensor
  runtime (convolutions, views, products, softmax, dropout) is modelled by its
  documented behaviour on the arguments the layer hands it; floating-point numbers are
  idealised as real numbers, so rounding, infinities and NaN are outside the model.
\<close>

datatype message =
    KeyDepth int int        \<comment> \<open>"Key depth (%d) must be divisible by the number of attention heads (%d)."\<close>
  | ValueDepth int int      \<comment> \<open>"Value depth (%d) must be divisible by the number of attention heads (%d)."\<close>
  | LayerType string        \<comment> \<open>"Layer type (%s) must be one of SAME, DOWN, UP."\<close>
  | DropoutProbability      \<comment> \<open>nn.Dropout: "dropout probability has to be between 0 and 1"\<close>
  | OutputSize              \<comment> \<open>ConvTranspose3d: "requested an output size of ..., but valid sizes range from ..."\<close>

datatype error =
    ValueError message
  | ZeroDivisionError
  | RuntimeError
  | IndexError
  | TypeError
  | UnboundLocalError

definition ebind :: "error + 'a \<Rightarrow> ('a \<Rightarrow> error + 'b) \<Rightarrow> error + 'b" where
  "ebind m f = (case m of Inl e \<Rightarrow> Inl e | Inr v \<Rightarrow> f v)"

definition is_ValueError :: "error + 'a \<Rightarrow> bool" where
  "is_ValueError r = (case r of Inl (ValueError m) \<Rightarrow> True | _ \<Rightarrow> False)"

definition succeeds :: "error + 'a \<Rightarrow> bool" where
  "succeeds r = (case r of Inl e \<Rightarrow> False | Inr v \<Rightarrow> True)"

text \<open>
  The spec's \<open>ConfigurationError\<close>: a \<open>ValueError\<close> raised by one of the three checks
  of the constructor itself.
\<close>

definition is_ConfigurationError :: "error + 'a \<Rightarrow> bool" where
  "is_ConfigurationError r =
     (case r of
        Inl (ValueError (KeyDepth a b)) \<Rightarrow> True
      | Inl (ValueError (ValueDepth a b)) \<Rightarrow> True
      | Inl (ValueError (LayerType s)) \<Rightarrow> True
      | _ \<Rightarrow> False)"

text \<open>
  Python's \<open>%\<close> and \<open>//\<close> on integers round towards minus infinity, as \<open>mod\<close> and
  \<open>div\<close> on \<open>int\<close> do, and raise \<open>ZeroDivisionError\<close> for a zero divisor, where HOL
  returns a value.
\<close>

definition py_mod :: "int \<Rightarrow> int \<Rightarrow> error + int" where
  "py_mod a b = (if b = 0 then Inl ZeroDivisionError else Inr (a mod b))"

definition py_floordiv :: "int \<Rightarrow> int \<Rightarrow> error + int" where
  "py_floordiv a b = (if b = 0 then Inl ZeroDivisionError else Inr (a div b))"

text \<open>
  \<open>n ** 0.5\<close> for an integer \<open>n\<close>: a float for \<open>n \<ge> 0\<close>, a complex number for
  \<open>n < 0\<close> (Python 3). Floats are idealised as real numbers throughout.
\<close>

datatype scalar = PyFloat real | PyComplex complex

definition py_pow_half :: "int \<Rightarrow> scalar" where
  "py_pow_half n = (if 0 \<le> n then PyFloat (sqrt (of_int n)) else PyComplex (csqrt (of_int n)))"

text \<open>
  \<open>int(a / b)\<close>: true division, then truncation towards zero.
\<close>

definition py_int_truediv :: "int \<Rightarrow> int \<Rightarrow> error + int" where
  "py_int_truediv a b =
     (if b = 0 then Inl ZeroDivisionError else Inr (sgn a * sgn b * (\<bar>a\<bar> div \<bar>b\<bar>)))"

section \<open>The projection modules\<close>

text \<open>
  A convolution module holds its geometry and its parameters. The weight of a
  \<open>Conv3d\<close> is indexed [out, in, i, j, l], that of a \<open>ConvTranspose3d\<close> [in, out, i, j, l];
  both are kept as index functions, the bias as a function of the output channel.
  The constructors of the runtime allocate the parameter tensors, which fails with a
  \<open>RuntimeError\<close> for a negative channel count; \<open>nn.Dropout\<close> raises a \<open>ValueError\<close> for
  a probability outside [0, 1]. The randomly initialised values are an argument of the
  constructor.
\<close>

record conv =
  in_channels :: nat
  out_channels :: nat
  kernel_size :: nat
  stride :: nat
  padding :: nat
  weight :: "nat \<Rightarrow> nat \<Rightarrow> nat \<Rightarrow> nat \<Rightarrow> nat \<Rightarrow> real"
  bias :: "nat \<Rightarrow> real"

datatype module = Conv3d conv | ConvTranspose3d conv

datatype dropout = Dropout real

definition new_conv ::
  "(nat \<Rightarrow> nat \<Rightarrow> nat \<Rightarrow> nat \<Rightarrow> nat \<Rightarrow> real) \<times> (nat \<Rightarrow> real) \<Rightarrow> int \<Rightarrow> int \<Rightarrow> nat \<Rightarrow> nat \<Rightarrow> nat
     \<Rightarrow> error + conv" where
  "new_conv wb cin cout k s p =
     (if cin < 0 \<or> cout < 0 then Inl RuntimeError
      else Inr \<lparr>in_channels = nat cin, out_channels = nat cout, kernel_size = k,
                stride = s, padding = p, weight = fst wb, bias = snd wb\<rparr>)"

definition nn_Conv3d ::
  "(nat \<Rightarrow> nat \<Rightarrow> nat \<Rightarrow> nat \<Rightarrow> nat \<Rightarrow> real) \<times> (nat \<Rightarrow> real) \<Rightarrow> int \<Rightarrow> int \<Rightarrow> nat \<Rightarrow> nat \<Rightarrow> nat
     \<Rightarrow> error + module" where
  "nn_Conv3d wb cin cout k s p = ebind (new_conv wb cin cout k s p) (\<lambda>c. Inr (Conv3d c))"

definition nn_ConvTranspose3d ::
  "(nat \<Rightarrow> nat \<Rightarrow> nat \<Rightarrow> nat \<Rightarrow> nat \<Rightarrow> real) \<times> (nat \<Rightarrow> real) \<Rightarrow> int \<Rightarrow> int \<Rightarrow> nat \<Rightarrow> nat \<Rightarrow> nat
     \<Rightarrow> error + module" where
  "nn_ConvTranspose3d wb cin cout k s p =
     ebind (new_conv wb cin cout k s p) (\<lambda>c. Inr (ConvTranspose3d c))"

definition nn_Dropout :: "real \<Rightarrow> error + dropout" where
  "nn_Dropout p = (if p < 0 \<or> 1 < p then Inl (ValueError DropoutProbability) else Inr (Dropout p))"

section \<open>Construction\<close>

record initial_parameters =
  query_init :: "(nat \<Rightarrow> nat \<Rightarrow> nat \<Rightarrow> nat \<Rightarrow> nat \<Rightarrow> real) \<times> (nat \<Rightarrow> real)"
  key_init :: "(nat \<Rightarrow> nat \<Rightarrow> nat \<Rightarrow> nat \<Rightarrow> nat \<Rightarrow> real) \<times> (nat \<Rightarrow> real)"
  value_init :: "(nat \<Rightarrow> nat \<Rightarrow> nat \<Rightarrow> nat \<Rightarrow> nat \<Rightarrow> real) \<times> (nat \<Rightarrow> real)"
  output_init :: "(nat \<Rightarrow> nat \<Rightarrow> nat \<Rightarrow> nat \<Rightarrow> nat \<Rightarrow> real) \<times> (nat \<Rightarrow> real)"

text \<open>
  The attributes \<open>__init__\<close> sets; \<open>scale\<close> is \<open>self._scale\<close>, and \<open>training\<close> is the
  mode flag every module carries (set on construction, switched by \<open>train()\<close> and
  \<open>eval()\<close>).
\<close>

record layer =
  num_heads :: int
  layer_type :: string
  QueryTransform :: "module option"
  KeyTransform :: conv
  ValueTransform :: conv
  attention_dropout :: dropout
  outputConv :: conv
  scale :: scalar
  training :: bool

definition init ::
  "initial_parameters \<Rightarrow> int \<Rightarrow> int \<Rightarrow> int \<Rightarrow> int \<Rightarrow> int \<Rightarrow> real \<Rightarrow> string \<Rightarrow> error + layer" where
  "init ws in_channel key_filters value_filters output_filters nheads dropout_prob ltype =
     ebind (py_mod key_filters nheads) (\<lambda>rk.
     if rk \<noteq> 0 then Inl (ValueError (KeyDepth key_filters nheads)) else
     ebind (py_mod value_filters nheads) (\<lambda>rv.
     if rv \<noteq> 0 then Inl (ValueError (ValueDepth value_filters nheads)) else
     if ltype \<notin> set [''SAME'', ''DOWN'', ''UP''] then Inl (ValueError (LayerType ltype)) else
     ebind (if ltype = ''SAME'' then
              ebind (nn_Conv3d (query_init ws) in_channel key_filters 1 1 0) (\<lambda>m. Inr (Some m))
            else if ltype = ''DOWN'' then
              ebind (nn_Conv3d (query_init ws) in_channel key_filters 3 2 1) (\<lambda>m. Inr (Some m))
            else if ltype = ''UP'' then
              ebind (nn_ConvTranspose3d (query_init ws) in_channel key_filters 3 2 1)
                (\<lambda>m. Inr (Some m))
            else Inr None) (\<lambda>qt.
     ebind (new_conv (key_init ws) in_channel key_filters 1 1 0) (\<lambda>kt.
     ebind (new_conv (value_init ws) in_channel value_filters 1 1 0) (\<lambda>vt.
     ebind (nn_Dropout dropout_prob) (\<lambda>ad.
     ebind (new_conv (output_init ws) value_filters output_filters 1 1 0) (\<lambda>oc.
     ebind (py_floordiv key_filters nheads) (\<lambda>quot.
     Inr \<lparr>num_heads = nheads, layer_type = ltype, QueryTransform = qt,
          KeyTransform = kt, ValueTransform = vt, attention_dropout = ad,
          outputConv = oc, scale = py_pow_half quot, training = True\<rparr>))))))))"

section \<open>Tensors and the runtime's convolutions\<close>

text \<open>
  A tensor is its shape and its elements in row-major order of the logical indices
  (what \<open>x[b, c, d, h, w]\<close> reads), whatever the strides of the storage behind it.
  Elements are real numbers. \<open>Conv3d\<close> is the cross-correlation of the runtime with zero
  padding; \<open>ConvTranspose3d\<close> scatters every input element over the kernel, and an
  explicit \<open>output_size\<close> has to lie between the smallest size of the transposed
  convolution and that size plus stride - 1, else the module raises a \<open>ValueError\<close>.
  An input of four axes is an unbatched volume. A module without input channels or
  without output channels can be constructed, but its weight has no elements and the
  convolution of the runtime refuses it with a \<open>RuntimeError\<close>, as it refuses a channel
  count that differs from the module's and a padded volume smaller than the kernel.
\<close>

record tensor =
  shape :: "nat list"
  data :: "real list"

fun offset :: "nat \<Rightarrow> nat list \<Rightarrow> nat list \<Rightarrow> nat" where
  "offset acc (n # sh) (i # idx) = offset (acc * n + i) sh idx"
| "offset acc sh idx = acc"

definition ravel :: "nat list \<Rightarrow> nat list \<Rightarrow> nat" where
  "ravel sh idx = offset 0 sh idx"

fun unravel :: "nat list \<Rightarrow> nat \<Rightarrow> nat list" where
  "unravel [] n = []"
| "unravel (s # sh) n = n div prod_list sh # unravel sh (n mod prod_list sh)"

definition at5 :: "tensor \<Rightarrow> nat \<Rightarrow> nat \<Rightarrow> nat \<Rightarrow> nat \<Rightarrow> nat \<Rightarrow> real" where
  "at5 x b c d h w = data x ! ravel (shape x) [b, c, d, h, w]"

definition padded5 :: "tensor \<Rightarrow> nat \<Rightarrow> nat \<Rightarrow> nat \<Rightarrow> nat \<Rightarrow> nat \<Rightarrow> nat \<Rightarrow> real" where
  "padded5 x p b c d h w =
     (if p \<le> d \<and> d - p < shape x ! 2 \<and> p \<le> h \<and> h - p < shape x ! 3 \<and> p \<le> w \<and> w - p < shape x ! 4
      then at5 x b c (d - p) (h - p) (w - p) else 0)"

definition conv3d_batched :: "conv \<Rightarrow> tensor \<Rightarrow> error + tensor" where
  "conv3d_batched m x =
     (case shape x of
        [B, C, D, H, W] \<Rightarrow>
          (let k = kernel_size m; s = stride m; p = padding m in
           if in_channels m = 0 \<or> out_channels m = 0 \<or> C \<noteq> in_channels m \<or>
              D + 2 * p < k \<or> H + 2 * p < k \<or> W + 2 * p < k
           then Inl RuntimeError
           else
             (let Do = (D + 2 * p - k) div s + 1;
                  Ho = (H + 2 * p - k) div s + 1;
                  Wo = (W + 2 * p - k) div s + 1
              in Inr \<lparr>shape = [B, out_channels m, Do, Ho, Wo],
                      data = [bias m a + (\<Sum>c\<leftarrow>[0..<C]. \<Sum>i\<leftarrow>[0..<k]. \<Sum>j\<leftarrow>[0..<k]. \<Sum>l\<leftarrow>[0..<k].
                                 weight m a c i j l *
                                 padded5 x p b c (d * s + i) (h * s + j) (w * s + l)).
                              b \<leftarrow> [0..<B], a \<leftarrow> [0..<out_channels m],
                              d \<leftarrow> [0..<Do], h \<leftarrow> [0..<Ho], w \<leftarrow> [0..<Wo]]\<rparr>))
      | _ \<Rightarrow> Inl RuntimeError)"

definition conv3d_forward :: "conv \<Rightarrow> tensor \<Rightarrow> error + tensor" where
  "conv3d_forward m x =
     (if length (shape x) = 4
      then ebind (conv3d_batched m (x\<lparr>shape := 1 # shape x\<rparr>))
             (\<lambda>y. Inr (y\<lparr>shape := tl (shape y)\<rparr>))
      else conv3d_batched m x)"

definition source_index :: "nat \<Rightarrow> nat \<Rightarrow> nat \<Rightarrow> nat \<Rightarrow> nat \<Rightarrow> nat option" where
  "source_index s p n z i =
     (if i \<le> z + p \<and> (z + p - i) mod s = 0 \<and> (z + p - i) div s < n
      then Some ((z + p - i) div s) else None)"

definition scattered5 ::
  "tensor \<Rightarrow> nat \<Rightarrow> nat \<Rightarrow> nat \<Rightarrow> nat \<Rightarrow> nat \<times> nat \<Rightarrow> nat \<times> nat \<Rightarrow> nat \<times> nat \<Rightarrow> real" where
  "scattered5 x s p b c di hj wl =
     (case (source_index s p (shape x ! 2) (fst di) (snd di),
            source_index s p (shape x ! 3) (fst hj) (snd hj),
            source_index s p (shape x ! 4) (fst wl) (snd wl)) of
        (Some d, Some h, Some w) \<Rightarrow> at5 x b c d h w
      | _ \<Rightarrow> 0)"

definition valid_output_size :: "nat \<Rightarrow> nat \<Rightarrow> nat \<Rightarrow> nat \<Rightarrow> nat \<Rightarrow> bool" where
  "valid_output_size k s p d n =
     ((int d - 1) * int s - 2 * int p + int k \<le> int n \<and>
      int n \<le> (int d - 1) * int s - 2 * int p + int k + int s - 1)"

definition conv_transpose3d_batched ::
  "conv \<Rightarrow> tensor \<Rightarrow> (nat \<times> nat \<times> nat) option \<Rightarrow> error + tensor" where
  "conv_transpose3d_batched m x output_size =
     (case shape x of
        [B, C, D, H, W] \<Rightarrow>
          (let k = kernel_size m; s = stride m; p = padding m in
           ebind (case output_size of
                    None \<Rightarrow> Inr (nat ((int D - 1) * int s - 2 * int p + int k),
                                 nat ((int H - 1) * int s - 2 * int p + int k),
                                 nat ((int W - 1) * int s - 2 * int p + int k))
                  | Some (od, oh, ow) \<Rightarrow>
                      if valid_output_size k s p D od \<and> valid_output_size k s p H oh \<and>
                         valid_output_size k s p W ow
                      then Inr (od, oh, ow) else Inl (ValueError OutputSize))
             (\<lambda>(Do, Ho, Wo).
                if in_channels m = 0 \<or> out_channels m = 0 \<or> C \<noteq> in_channels m \<or>
                   D = 0 \<or> H = 0 \<or> W = 0
                then Inl RuntimeError
                else Inr \<lparr>shape = [B, out_channels m, Do, Ho, Wo],
                          data = [bias m a + (\<Sum>c\<leftarrow>[0..<C]. \<Sum>i\<leftarrow>[0..<k]. \<Sum>j\<leftarrow>[0..<k]. \<Sum>l\<leftarrow>[0..<k].
                                     weight m c a i j l * scattered5 x s p b c (d, i) (h, j) (w, l)).
                                  b \<leftarrow> [0..<B], a \<leftarrow> [0..<out_channels m],
                                  d \<leftarrow> [0..<Do], h \<leftarrow> [0..<Ho], w \<leftarrow> [0..<Wo]]\<rparr>))
      | _ \<Rightarrow> Inl RuntimeError)"

definition conv_transpose3d_forward ::
  "conv \<Rightarrow> tensor \<Rightarrow> (nat \<times> nat \<times> nat) option \<Rightarrow> error + tensor" where
  "conv_transpose3d_forward m x output_size =
     (if length (shape x) = 4
      then ebind (conv_transpose3d_batched m (x\<lparr>shape := 1 # shape x\<rparr>) output_size)
             (\<lambda>y. Inr (y\<lparr>shape := tl (shape y)\<rparr>))
      else conv_transpose3d_batched m x output_size)"

definition call_module :: "module \<Rightarrow> tensor \<Rightarrow> (nat \<times> nat \<times> nat) option \<Rightarrow> error + tensor" where
  "call_module m x output_size =
     (case m of
        Conv3d c \<Rightarrow> (case output_size of None \<Rightarrow> conv3d_forward c x | Some sz \<Rightarrow> Inl TypeError)
      | ConvTranspose3d c \<Rightarrow> conv_transpose3d_forward c x output_size)"

section \<open>Views, products and the softmax\<close>

text \<open>
  \<open>permute\<close>, \<open>view\<close> and \<open>flatten\<close> act on the logical index order (an axis out of
  range is an \<open>IndexError\<close>, any other refusal a \<open>RuntimeError\<close>); a \<open>view\<close> that
  splits the last axis is valid for every stride pattern, which is the only use the
  layer makes of it after a \<open>permute\<close>. One size of a \<open>view\<close> may be \<open>-1\<close> and is then
  inferred; any other negative size is refused. \<open>matmul\<close> and \<open>softmax\<close> are modelled
  on matrices, the only arguments the forward pass can hand them (both follow a
  \<open>flatten\<close> of the first five of six axes). Dividing by a complex scalar yields a
  complex tensor, which the product with a real one refuses: the model reports that
  \<open>RuntimeError\<close> at the division, no other statement standing in between. (A
  constructed layer has scale 0 only for \<open>key_filters = 0\<close>, where the query has no
  elements to divide.)
  \<open>Dropout\<close> returns its input when \<open>p = 0\<close>, in evaluation mode or on an empty tensor,
  zeros when \<open>p = 1\<close>, and otherwise draws a mask with keep probability \<open>1 - p\<close> from the
  generator and scales what it keeps by \<open>1 / (1 - p)\<close>; the Bernoulli sampler of the
  runtime is an argument.
\<close>

definition index_of :: "nat \<Rightarrow> nat list \<Rightarrow> nat" where
  "index_of a dims = length (takeWhile (\<lambda>d. d \<noteq> a) dims)"

definition permute :: "nat list \<Rightarrow> tensor \<Rightarrow> error + tensor" where
  "permute dims x =
     (let sh = shape x in
      if length dims \<noteq> length sh then Inl RuntimeError
      else if \<not> list_all (\<lambda>d. d < length sh) dims then Inl IndexError
      else if \<not> distinct dims then Inl RuntimeError
      else
        (let sh' = map (\<lambda>d. sh ! d) dims in
         Inr \<lparr>shape = sh',
              data = map (\<lambda>n. data x ! ravel sh
                                (map (\<lambda>a. unravel sh' n ! index_of a dims) [0..<length sh]))
                       [0..<prod_list sh']\<rparr>))"

definition transpose_dims :: "nat \<Rightarrow> nat \<Rightarrow> tensor \<Rightarrow> error + tensor" where
  "transpose_dims d0 d1 x =
     (let r = length (shape x) in
      if r \<le> d0 \<or> r \<le> d1 then Inl IndexError
      else permute (map (\<lambda>a. if a = d0 then d1 else if a = d1 then d0 else a) [0..<r]) x)"

definition view :: "int list \<Rightarrow> tensor \<Rightarrow> error + tensor" where
  "view sizes x =
     (let n = prod_list (shape x) in
      if list_ex (\<lambda>s. s < - 1) sizes \<or> 1 < count_list sizes (- 1) then Inl RuntimeError
      else if - 1 \<in> set sizes then
        (let m = nat (prod_list (filter (\<lambda>s. s \<noteq> - 1) sizes)) in
         if m = 0 \<or> n mod m \<noteq> 0 then Inl RuntimeError
         else Inr \<lparr>shape = map (\<lambda>s. if s = - 1 then n div m else nat s) sizes, data = data x\<rparr>)
      else if nat (prod_list sizes) \<noteq> n then Inl RuntimeError
      else Inr \<lparr>shape = map nat sizes, data = data x\<rparr>)"

definition flatten :: "tensor \<Rightarrow> nat \<Rightarrow> nat \<Rightarrow> error + tensor" where
  "flatten x start_dim end_dim =
     (let sh = shape x in
      if length sh \<le> start_dim \<or> length sh \<le> end_dim then Inl IndexError
      else if end_dim < start_dim then Inl RuntimeError
      else Inr \<lparr>shape = take start_dim sh @
                         [prod_list (take (end_dim + 1 - start_dim) (drop start_dim sh))] @
                         drop (end_dim + 1) sh,
                data = data x\<rparr>)"

definition div_scalar :: "tensor \<Rightarrow> scalar \<Rightarrow> error + tensor" where
  "div_scalar x s =
     (case s of
        PyFloat r \<Rightarrow> Inr \<lparr>shape = shape x, data = map (\<lambda>v. v / r) (data x)\<rparr>
      | PyComplex z \<Rightarrow> Inl RuntimeError)"

definition at2 :: "tensor \<Rightarrow> nat \<Rightarrow> nat \<Rightarrow> real" where
  "at2 x i j = data x ! (i * (shape x ! 1) + j)"

definition row :: "tensor \<Rightarrow> nat \<Rightarrow> real list" where
  "row x i = map (\<lambda>j. at2 x i j) [0..<shape x ! 1]"

definition matmul :: "tensor \<Rightarrow> tensor \<Rightarrow> error + tensor" where
  "matmul a b =
     (case (shape a, shape b) of
        ([n, m], [m', p]) \<Rightarrow>
          if m \<noteq> m' then Inl RuntimeError
          else Inr \<lparr>shape = [n, p],
                    data = [(\<Sum>k\<leftarrow>[0..<m]. at2 a i k * at2 b k j). i \<leftarrow> [0..<n], j \<leftarrow> [0..<p]]\<rparr>
      | _ \<Rightarrow> Inl RuntimeError)"

definition softmax :: "tensor \<Rightarrow> nat \<Rightarrow> error + tensor" where
  "softmax a axis =
     (case shape a of
        [n, m] \<Rightarrow>
          if axis = 1 then
            Inr \<lparr>shape = [n, m],
                 data = [exp (at2 a i j) / (\<Sum>k\<leftarrow>[0..<m]. exp (at2 a i k)). i \<leftarrow> [0..<n], j \<leftarrow> [0..<m]]\<rparr>
          else if axis = 0 then
            Inr \<lparr>shape = [n, m],
                 data = [exp (at2 a i j) / (\<Sum>k\<leftarrow>[0..<n]. exp (at2 a k j)). i \<leftarrow> [0..<n], j \<leftarrow> [0..<m]]\<rparr>
          else Inl IndexError
      | _ \<Rightarrow> Inl RuntimeError)"

definition dropout_forward ::
  "('g \<Rightarrow> real \<Rightarrow> nat \<Rightarrow> (nat \<Rightarrow> bool) \<times> 'g) \<Rightarrow> dropout \<Rightarrow> bool \<Rightarrow> 'g \<Rightarrow> tensor \<Rightarrow> tensor \<times> 'g" where
  "dropout_forward bernoulli m train g a =
     (case m of Dropout p \<Rightarrow>
        if p = 0 \<or> \<not> train \<or> data a = [] then (a, g)
        else if p = 1 then (\<lparr>shape = shape a, data = map (\<lambda>v. 0) (data a)\<rparr>, g)
        else
          (let (mask, g') = bernoulli g (1 - p) (length (data a)) in
           (\<lparr>shape = shape a,
             data = map (\<lambda>i. if mask i then data a ! i / (1 - p) else 0) [0..<length (data a)]\<rparr>,
            g')))"

section \<open>The forward pass\<close>

text \<open>
  \<open>attend\<close> is \<open>forward\<close> up to the softmax (lines 66 to 93) and returns the local
  variables a property may speak about: the three projections as the modules return
  them, the flattened matrices of lines 84 to 86, the scaled query of line 89, the
  similarity matrix of line 92 and the attention weights of line 93, with
  \<open>Batch, Dq, Hq, Wq\<close> of line 76. \<open>project_output\<close> is lines 97 to 103. \<open>forward\<close>
  threads the state of the random generator through the dropout of line 94, the one
  statement that reads or writes it. \<open>head_rows\<close> names what lines 72 to 86 do to each
  of the three projections, one after the other: \<open>permute(0, 2, 3, 4, 1)\<close>,
  \<open>split_heads\<close>, \<open>flatten(0, 4)\<close>.
\<close>

definition split_heads :: "tensor \<Rightarrow> int \<Rightarrow> error + tensor" where
  "split_heads x nheads =
     (let sh = shape x in
      if length sh < 4 then Inl IndexError
      else
        ebind (py_int_truediv (int (last sh)) nheads) (\<lambda>c.
        view [int (sh ! 0), int (sh ! 1), int (sh ! 2), int (sh ! 3), nheads, c] x))"

definition head_rows :: "tensor \<Rightarrow> int \<Rightarrow> error + tensor" where
  "head_rows x nheads =
     ebind (permute [0, 2, 3, 4, 1] x) (\<lambda>x1.
     ebind (split_heads x1 nheads) (\<lambda>x2.
     flatten x2 0 4))"

record attention =
  q_proj :: tensor
  k_proj :: tensor
  v_proj :: tensor
  q_flat :: tensor
  k_flat :: tensor
  v_flat :: tensor
  q_scaled :: tensor
  A_sim :: tensor
  A_soft :: tensor
  q_dims :: "nat \<times> nat \<times> nat \<times> nat"

definition query_projection :: "layer \<Rightarrow> tensor \<Rightarrow> error + tensor option" where
  "query_projection L inputs =
     (if layer_type L = ''SAME'' \<or> layer_type L = ''DOWN'' then
        (case QueryTransform L of
           None \<Rightarrow> Inl TypeError
         | Some m \<Rightarrow> ebind (call_module m inputs None) (\<lambda>q. Inr (Some q)))
      else if layer_type L = ''UP'' then
        (if length (shape inputs) < 5 then Inl IndexError
         else
           (case QueryTransform L of
              None \<Rightarrow> Inl TypeError
            | Some m \<Rightarrow>
                ebind (call_module m inputs
                         (Some (shape inputs ! 2 * 2, shape inputs ! 3 * 2, shape inputs ! 4 * 2)))
                  (\<lambda>q. Inr (Some q))))
      else Inr None)"

definition attend :: "layer \<Rightarrow> tensor \<Rightarrow> error + attention" where
  "attend L inputs =
     ebind (query_projection L inputs) (\<lambda>q0.
     ebind (conv3d_forward (KeyTransform L) inputs) (\<lambda>k0.
     ebind (permute [0, 2, 3, 4, 1] k0) (\<lambda>k1.
     ebind (conv3d_forward (ValueTransform L) inputs) (\<lambda>v0.
     ebind (permute [0, 2, 3, 4, 1] v0) (\<lambda>v1.
     ebind (case q0 of None \<Rightarrow> Inl UnboundLocalError | Some q \<Rightarrow> Inr q) (\<lambda>q.
     ebind (permute [0, 2, 3, 4, 1] q) (\<lambda>q1.
     ebind (split_heads k1 (num_heads L)) (\<lambda>k2.
     ebind (split_heads v1 (num_heads L)) (\<lambda>v2.
     ebind (split_heads q1 (num_heads L)) (\<lambda>q2.
     ebind (flatten k2 0 4) (\<lambda>k3.
     ebind (flatten v2 0 4) (\<lambda>v3.
     ebind (flatten q2 0 4) (\<lambda>q3.
     ebind (div_scalar q3 (scale L)) (\<lambda>q4.
     ebind (transpose_dims 0 1 k3) (\<lambda>kT.
     ebind (matmul q4 kT) (\<lambda>A0.
     ebind (softmax A0 1) (\<lambda>A1.
     Inr \<lparr>q_proj = q, k_proj = k0, v_proj = v0, q_flat = q3, k_flat = k3, v_flat = v3,
          q_scaled = q4, A_sim = A0, A_soft = A1,
          q_dims = (shape q1 ! 0, shape q1 ! 1, shape q1 ! 2, shape q1 ! 3)\<rparr>)))))))))))))))))"

definition project_output :: "layer \<Rightarrow> attention \<Rightarrow> tensor \<Rightarrow> error + tensor" where
  "project_output L att A =
     ebind (matmul A (v_flat att)) (\<lambda>O1.
     (case q_dims att of (Batch, Dq, Hq, Wq) \<Rightarrow>
     ebind (view [int Batch, int Dq, int Hq, int Wq, int (last (shape (v_flat att))) * num_heads L] O1) (\<lambda>O2.
     ebind (permute [0, 4, 1, 2, 3] O2) (\<lambda>O3.
     conv3d_forward (outputConv L) O3))))"

definition forward ::
  "('g \<Rightarrow> real \<Rightarrow> nat \<Rightarrow> (nat \<Rightarrow> bool) \<times> 'g) \<Rightarrow> layer \<Rightarrow> 'g \<Rightarrow> tensor \<Rightarrow> (error + tensor) \<times> 'g" where
  "forward bernoulli L g inputs =
     (case attend L inputs of
        Inl e \<Rightarrow> (Inl e, g)
      | Inr att \<Rightarrow>
          (let (A, g') = dropout_forward bernoulli (attention_dropout L) (training L) g (A_soft att)
           in (project_output L att A, g')))"


text \<open>
  The spatial size of the query the spec gives for each resolution mode: unchanged for
  SAME, \<open>floor((d + 2 * 1 - 3) / 2) + 1\<close> for DOWN, doubled for UP.
\<close>

definition query_size :: "string \<Rightarrow> nat \<Rightarrow> nat" where
  "query_size lt d =
     (if lt = ''SAME'' then d else if lt = ''DOWN'' then (d + 2 * 1 - 3) div 2 + 1 else 2 * d)"

section \<open>The forward pass over a store of objects\<close>

text \<open>
  To say what a call leaves as it was, the objects of the program are put into a store:
  a tensor object holds its elements, the layer object its attributes and the parameters
  of its four projections, and the random generator of the runtime is a component of
  the store. A statement reads the objects it names and has the effect the runtime
  gives its operation: a module call, \<open>permute\<close>, \<open>view\<close>, \<open>flatten\<close>, \<open>transpose\<close>, \<open>/\<close>,
  \<open>matmul\<close> and \<open>softmax\<close> return a new tensor object (\<open>new_tensor\<close>; a view shares the
  elements of its base, which no statement of the layer writes to), and a \<open>Dropout\<close>
  constructed with \<open>inplace=True\<close> overwrites its argument (\<open>set_tensor\<close>), where the
  \<open>nn.Dropout(dropout_prob)\<close> of the constructor, with \<open>inplace\<close> at its default, returns
  a new tensor (where the runtime hands back its argument, for \<open>p = 0\<close> and in
  evaluation mode, the new object holds the same elements). \<open>forward_store\<close> is
  \<open>forward\<close> statement by statement, its local variables holding addresses; every
  \<open>self.x\<close> reads the layer object.
  \<open>frame m\<close> says that \<open>m\<close> changes no object that exists when it starts and leaves the
  generator alone.
\<close>

datatype object = TensorObject tensor | LayerObject layer

record 'g store =
  objects :: "nat \<Rightarrow> object option"
  next_address :: nat
  generator :: 'g

definition sbind ::
  "('s \<Rightarrow> (error + 'a) \<times> 's) \<Rightarrow> ('a \<Rightarrow> 's \<Rightarrow> (error + 'b) \<times> 's) \<Rightarrow> 's \<Rightarrow> (error + 'b) \<times> 's" where
  "sbind m f s = (case m s of (Inl e, s') \<Rightarrow> (Inl e, s') | (Inr x, s') \<Rightarrow> f x s')"

definition returning :: "error + 'a \<Rightarrow> 's \<Rightarrow> (error + 'a) \<times> 's" where
  "returning r s = (r, s)"

definition allocate :: "tensor \<Rightarrow> 'g store \<Rightarrow> 'g store" where
  "allocate t s =
     s\<lparr>objects := (objects s)(next_address s \<mapsto> TensorObject t),
       next_address := Suc (next_address s)\<rparr>"

definition new_tensor :: "tensor \<Rightarrow> 'g store \<Rightarrow> (error + nat) \<times> 'g store" where
  "new_tensor t s = (Inr (next_address s), allocate t s)"

definition set_tensor :: "nat \<Rightarrow> tensor \<Rightarrow> 'g store \<Rightarrow> (error + nat) \<times> 'g store" where
  "set_tensor a t s = (Inr a, s\<lparr>objects := (objects s)(a \<mapsto> TensorObject t)\<rparr>)"

definition get_tensor :: "nat \<Rightarrow> 'g store \<Rightarrow> (error + tensor) \<times> 'g store" where
  "get_tensor a s =
     (case objects s a of Some (TensorObject t) \<Rightarrow> (Inr t, s) | _ \<Rightarrow> (Inl TypeError, s))"

definition get_attr :: "(layer \<Rightarrow> 'a) \<Rightarrow> nat \<Rightarrow> 'g store \<Rightarrow> (error + 'a) \<times> 'g store" where
  "get_attr f self s =
     (case objects s self of Some (LayerObject L) \<Rightarrow> (Inr (f L), s) | _ \<Rightarrow> (Inl TypeError, s))"

definition apply1 :: "(tensor \<Rightarrow> error + tensor) \<Rightarrow> nat \<Rightarrow> 'g store \<Rightarrow> (error + nat) \<times> 'g store" where
  "apply1 f a = sbind (get_tensor a) (\<lambda>t. sbind (returning (f t)) new_tensor)"

definition apply2 ::
  "(tensor \<Rightarrow> tensor \<Rightarrow> error + tensor) \<Rightarrow> nat \<Rightarrow> nat \<Rightarrow> 'g store \<Rightarrow> (error + nat) \<times> 'g store" where
  "apply2 f a b =
     sbind (get_tensor a) (\<lambda>t. sbind (get_tensor b) (\<lambda>u. sbind (returning (f t u)) new_tensor))"

definition call_conv :: "(layer \<Rightarrow> conv) \<Rightarrow> nat \<Rightarrow> nat \<Rightarrow> 'g store \<Rightarrow> (error + nat) \<times> 'g store" where
  "call_conv attr self a = sbind (get_attr attr self) (\<lambda>m. apply1 (conv3d_forward m) a)"

definition split_heads_store :: "nat \<Rightarrow> nat \<Rightarrow> 'g store \<Rightarrow> (error + nat) \<times> 'g store" where
  "split_heads_store self a =
     sbind (get_attr num_heads self) (\<lambda>nheads. apply1 (\<lambda>x. split_heads x nheads) a)"

definition query_store :: "nat \<Rightarrow> nat \<Rightarrow> 'g store \<Rightarrow> (error + nat option) \<times> 'g store" where
  "query_store self inputs =
     sbind (get_attr layer_type self) (\<lambda>lt.
     if lt = ''SAME'' \<or> lt = ''DOWN'' then
       sbind (get_attr QueryTransform self) (\<lambda>qt.
       case qt of
         None \<Rightarrow> returning (Inl TypeError)
       | Some m \<Rightarrow>
           sbind (apply1 (\<lambda>x. call_module m x None) inputs) (\<lambda>q. returning (Inr (Some q))))
     else if lt = ''UP'' then
       sbind (get_tensor inputs) (\<lambda>x.
       if length (shape x) < 5 then returning (Inl IndexError)
       else
         sbind (get_attr QueryTransform self) (\<lambda>qt.
         case qt of
           None \<Rightarrow> returning (Inl TypeError)
         | Some m \<Rightarrow>
             sbind (apply1 (\<lambda>x. call_module m x
                      (Some (shape x ! 2 * 2, shape x ! 3 * 2, shape x ! 4 * 2))) inputs)
               (\<lambda>q. returning (Inr (Some q)))))
     else returning (Inr None))"

definition dropout_store ::
  "('g \<Rightarrow> real \<Rightarrow> nat \<Rightarrow> (nat \<Rightarrow> bool) \<times> 'g) \<Rightarrow> bool \<Rightarrow> nat \<Rightarrow> nat \<Rightarrow> 'g store
     \<Rightarrow> (error + nat) \<times> 'g store" where
  "dropout_store bernoulli inplace self a =
     sbind (get_attr attention_dropout self) (\<lambda>m.
     sbind (get_attr training self) (\<lambda>train.
     sbind (get_tensor a) (\<lambda>t s.
       (let (y, g') = dropout_forward bernoulli m train (generator s) t
        in (if inplace then set_tensor a y else new_tensor y) (s\<lparr>generator := g'\<rparr>)))))"

definition attend_store ::
  "nat \<Rightarrow> nat \<Rightarrow> 'g store \<Rightarrow> (error + nat \<times> nat \<times> nat \<times> nat \<times> nat \<times> nat) \<times> 'g store" where
  "attend_store self inputs =
     sbind (query_store self inputs) (\<lambda>q0.
     sbind (call_conv KeyTransform self inputs) (\<lambda>k0.
     sbind (apply1 (permute [0, 2, 3, 4, 1]) k0) (\<lambda>k1.
     sbind (call_conv ValueTransform self inputs) (\<lambda>v0.
     sbind (apply1 (permute [0, 2, 3, 4, 1]) v0) (\<lambda>v1.
     sbind (returning (case q0 of None \<Rightarrow> Inl UnboundLocalError | Some q \<Rightarrow> Inr q)) (\<lambda>q.
     sbind (apply1 (permute [0, 2, 3, 4, 1]) q) (\<lambda>q1.
     sbind (get_tensor q1) (\<lambda>tq.
     sbind (split_heads_store self k1) (\<lambda>k2.
     sbind (split_heads_store self v1) (\<lambda>v2.
     sbind (split_heads_store self q1) (\<lambda>q2.
     sbind (apply1 (\<lambda>x. flatten x 0 4) k2) (\<lambda>k3.
     sbind (apply1 (\<lambda>x. flatten x 0 4) v2) (\<lambda>v3.
     sbind (apply1 (\<lambda>x. flatten x 0 4) q2) (\<lambda>q3.
     sbind (get_attr scale self) (\<lambda>sc.
     sbind (apply1 (\<lambda>x. div_scalar x sc) q3) (\<lambda>q4.
     sbind (apply1 (transpose_dims 0 1) k3) (\<lambda>kT.
     sbind (apply2 matmul q4 kT) (\<lambda>A0.
     sbind (apply1 (\<lambda>x. softmax x 1) A0) (\<lambda>A1.
     returning (Inr (A1, v3, shape tq ! 0, shape tq ! 1, shape tq ! 2, shape tq ! 3)))))))))))))))))))))"

definition project_store ::
  "nat \<Rightarrow> nat \<Rightarrow> nat \<Rightarrow> nat \<times> nat \<times> nat \<times> nat \<Rightarrow> 'g store \<Rightarrow> (error + nat) \<times> 'g store" where
  "project_store self A v dims =
     sbind (apply2 matmul A v) (\<lambda>O1.
     (case dims of (Batch, Dq, Hq, Wq) \<Rightarrow>
     sbind (get_tensor v) (\<lambda>tv.
     sbind (get_attr num_heads self) (\<lambda>nheads.
     sbind (apply1 (view [int Batch, int Dq, int Hq, int Wq, int (last (shape tv)) * nheads]) O1) (\<lambda>O2.
     sbind (apply1 (permute [0, 4, 1, 2, 3]) O2) (\<lambda>O3.
     call_conv outputConv self O3))))))"

definition forward_store ::
  "('g \<Rightarrow> real \<Rightarrow> nat \<Rightarrow> (nat \<Rightarrow> bool) \<times> 'g) \<Rightarrow> nat \<Rightarrow> nat \<Rightarrow> 'g store \<Rightarrow> (error + nat) \<times> 'g store" where
  "forward_store bernoulli self inputs =
     sbind (attend_store self inputs) (\<lambda>(A1, v, dims).
     sbind (dropout_store bernoulli False self A1) (\<lambda>A.
     project_store self A v dims))"

definition frame :: "('g store \<Rightarrow> (error + 'a) \<times> 'g store) \<Rightarrow> bool" where
  "frame m =
     (\<forall>s. next_address s \<le> next_address (snd (m s)) \<and>
          (\<forall>a < next_address s. objects (snd (m s)) a = objects s a) \<and>
          generator (snd (m s)) = generator s)"

section \<open>Concrete layers and inputs\<close>

definition const_init :: "real \<Rightarrow> real \<Rightarrow> (nat \<Rightarrow> nat \<Rightarrow> nat \<Rightarrow> nat \<Rightarrow> nat \<Rightarrow> real) \<times> (nat \<Rightarrow> real)" where
  "const_init w b = (\<lambda>a c i j l. w, \<lambda>a. b)"

definition zero_parameters :: initial_parameters where
  "zero_parameters = \<lparr>query_init = const_init 0 0, key_init = const_init 0 0,
     value_init = const_init 0 0, output_init = const_init 0 0\<rparr>"

text \<open>
  A Bernoulli sampler without state that keeps every element.
\<close>

definition no_mask :: "unit \<Rightarrow> real \<Rightarrow> nat \<Rightarrow> (nat \<Rightarrow> bool) \<times> unit" where
  "no_mask g p n = (\<lambda>i. True, g)"

definition zeros :: "nat list \<Rightarrow> tensor" where
  "zeros sh = \<lparr>shape = sh, data = replicate (prod_list sh) 0\<rparr>"

text \<open>
  The layer \<open>multi_head_attention_3d(1, 1, 1, 1, 1, 0, 'DOWN')\<close> with all parameters zero.
\<close>

definition down_layer :: layer where
  "down_layer =
     \<lparr>num_heads = 1, layer_type = ''DOWN'',
      QueryTransform = Some (Conv3d \<lparr>in_channels = 1, out_channels = 1, kernel_size = 3,
        stride = 2, padding = 1, weight = (\<lambda>a c i j l. 0), bias = (\<lambda>a. 0)\<rparr>),
      KeyTransform = \<lparr>in_channels = 1, out_channels = 1, kernel_size = 1,
        stride = 1, padding = 0, weight = (\<lambda>a c i j l. 0), bias = (\<lambda>a. 0)\<rparr>,
      ValueTransform = \<lparr>in_channels = 1, out_channels = 1, kernel_size = 1,
        stride = 1, padding = 0, weight = (\<lambda>a c i j l. 0), bias = (\<lambda>a. 0)\<rparr>,
      attention_dropout = Dropout 0,
      outputConv = \<lparr>in_channels = 1, out_channels = 1, kernel_size = 1,
        stride = 1, padding = 0, weight = (\<lambda>a c i j l. 0), bias = (\<lambda>a. 0)\<rparr>,
      scale = PyFloat 1, training = True\<rparr>"

text \<open>
  The layer \<open>multi_head_attention_3d(1, 1, 1, 1, 1, 0, 'SAME')\<close> whose key projection is
  zero and whose query, value and output projections are the identity.
\<close>

definition mix_parameters :: initial_parameters where
  "mix_parameters = \<lparr>query_init = const_init 1 0, key_init = const_init 0 0,
     value_init = const_init 1 0, output_init = const_init 1 0\<rparr>"

definition mixing_layer :: layer where
  "mixing_layer =
     \<lparr>num_heads = 1, layer_type = ''SAME'',
      QueryTransform = Some (Conv3d \<lparr>in_channels = 1, out_channels = 1, kernel_size = 1,
        stride = 1, padding = 0, weight = (\<lambda>a c i j l. 1), bias = (\<lambda>a. 0)\<rparr>),
      KeyTransform = \<lparr>in_channels = 1, out_channels = 1, kernel_size = 1,
        stride = 1, padding = 0, weight = (\<lambda>a c i j l. 0), bias = (\<lambda>a. 0)\<rparr>,
      ValueTransform = \<lparr>in_channels = 1, out_channels = 1, kernel_size = 1,
        stride = 1, padding = 0, weight = (\<lambda>a c i j l. 1), bias = (\<lambda>a. 0)\<rparr>,
      attention_dropout = Dropout 0,
      outputConv = \<lparr>in_channels = 1, out_channels = 1, kernel_size = 1,
        stride = 1, padding = 0, weight = (\<lambda>a c i j l. 1), bias = (\<lambda>a. 0)\<rparr>,
      scale = PyFloat 1, training = True\<rparr>"

text \<open>
  Batch element \<open>i\<close> of a tensor: the elements \<open>x[i, ...]\<close>.
\<close>

definition batch_element :: "tensor \<Rightarrow> nat \<Rightarrow> real list" where
  "batch_element x i =
     take (prod_list (tl (shape x))) (drop (i * prod_list (tl (shape x))) (data x))"

text \<open>
  A second Bernoulli sampler, which drops every element and advances its state.
\<close>

definition drop_all :: "nat \<Rightarrow> real \<Rightarrow> nat \<Rightarrow> (nat \<Rightarrow> bool) \<times> nat" where
  "drop_all g p n = (\<lambda>i. False, Suc g)"

text \<open>
  The layers \<open>multi_head_attention_3d(1, 1, 1, 1, -1, 0, 'SAME')\<close> and
  \<open>multi_head_attention_3d(1, 0, 1, 1, 1, 0, 'SAME')\<close> with all parameters zero: a
  negative number of heads and a key depth of zero pass the checks of the constructor.
  The scale of the first is \<open>(1 // -1) ** 0.5\<close>, a complex number.
\<close>

definition negative_heads_layer :: layer where
  "negative_heads_layer =
     \<lparr>num_heads = - 1, layer_type = ''SAME'',
      QueryTransform = Some (Conv3d \<lparr>in_channels = 1, out_channels = 1, kernel_size = 1,
        stride = 1, padding = 0, weight = (\<lambda>a c i j l. 0), bias = (\<lambda>a. 0)\<rparr>),
      KeyTransform = \<lparr>in_channels = 1, out_channels = 1, kernel_size = 1,
        stride = 1, padding = 0, weight = (\<lambda>a c i j l. 0), bias = (\<lambda>a. 0)\<rparr>,
      ValueTransform = \<lparr>in_channels = 1, out_channels = 1, kernel_size = 1,
        stride = 1, padding = 0, weight = (\<lambda>a c i j l. 0), bias = (\<lambda>a. 0)\<rparr>,
      attention_dropout = Dropout 0,
      outputConv = \<lparr>in_channels = 1, out_channels = 1, kernel_size = 1,
        stride = 1, padding = 0, weight = (\<lambda>a c i j l. 0), bias = (\<lambda>a. 0)\<rparr>,
      scale = PyComplex (csqrt (- 1)), training = True\<rparr>"

definition zero_key_layer :: layer where
  "zero_key_layer =
     \<lparr>num_heads = 1, layer_type = ''SAME'',
      QueryTransform = Some (Conv3d \<lparr>in_channels = 1, out_channels = 0, kernel_size = 1,
        stride = 1, padding = 0, weight = (\<lambda>a c i j l. 0), bias = (\<lambda>a. 0)\<rparr>),
      KeyTransform = \<lparr>in_channels = 1, out_channels = 0, kernel_size = 1,
        stride = 1, padding = 0, weight = (\<lambda>a c i j l. 0), bias = (\<lambda>a. 0)\<rparr>,
      ValueTransform = \<lparr>in_channels = 1, out_channels = 1, kernel_size = 1,
        stride = 1, padding = 0, weight = (\<lambda>a c i j l. 0), bias = (\<lambda>a. 0)\<rparr>,
      attention_dropout = Dropout 0,
      outputConv = \<lparr>in_channels = 1, out_channels = 1, kernel_size = 1,
        stride = 1, padding = 0, weight = (\<lambda>a c i j l. 0), bias = (\<lambda>a. 0)\<rparr>,
      scale = PyFloat 0, training = True\<rparr>"



text \<open>
  \<open>mixing_layer\<close> with dropout probability 1/2, and a store that holds this layer at
  address 0 and the one-element input 1 at address 1.
\<close>

definition half_layer :: layer where
  "half_layer = mixing_layer\<lparr>attention_dropout := Dropout (1 / 2)\<rparr>"

definition example_store :: "nat store" where
  "example_store =
     \<lparr>objects = [0 \<mapsto> LayerObject half_layer,
                 1 \<mapsto> TensorObject \<lparr>shape = [1, 1, 1, 1, 1], data = [1]\<rparr>],
      next_address = 2, generator = 3\<rparr>"

section \<open>Construction: the validation\<close>

lemmas init_defs =
  init_def py_mod_def py_floordiv_def ebind_def nn_Conv3d_def nn_ConvTranspose3d_def
  new_conv_def nn_Dropout_def

text \<open>
  C10. With \<open>num_heads = 0\<close> the first statement of the constructor,
  \<open>key_filters % num_heads\<close>, raises \<open>ZeroDivisionError\<close>: whatever the other
  arguments are, construction ends with that exception and not with a \<open>ValueError\<close>,
  and none of the three validation messages is produced.
\<close>

theorem init_zero_heads:
  "init ws in_channel key_filters value_filters output_filters 0 dropout_prob ltype
     = Inl ZeroDivisionError"
  by (simp add: init_def py_mod_def ebind_def)

theorem init_zero_heads_witness:
  "init zero_parameters 1 2 2 3 0 (1 / 2) ''UP'' = Inl ZeroDivisionError \<and>
   \<not> is_ValueError (init zero_parameters 1 2 2 3 0 (1 / 2) ''UP'')"
  using init_zero_heads [of zero_parameters 1 2 2 3 "1 / 2" "''UP''"]
  by (simp add: is_ValueError_def)

text \<open>
  C2, as amended. For \<open>num_heads \<noteq> 0\<close>: construction raises the constructor's own
  \<open>ValueError\<close> exactly when \<open>key_filters mod num_heads \<noteq> 0\<close>, or
  \<open>value_filters mod num_heads \<noteq> 0\<close>, or the layer type is none of SAME, DOWN, UP; the
  checks run in that order, the first one that fails giving the message. When all three
  pass, the channel counts are not negative and the dropout probability lies in [0, 1]
  (what the runtime's module constructors ask for), construction succeeds.
\<close>

theorem init_validation:
  "nheads \<noteq> 0 \<Longrightarrow>
   (is_ConfigurationError (init ws ic kf vf ofl nheads p lt) =
      (kf mod nheads \<noteq> 0 \<or> vf mod nheads \<noteq> 0 \<or> lt \<notin> {''SAME'', ''DOWN'', ''UP''})) \<and>
   ((init ws ic kf vf ofl nheads p lt = Inl (ValueError (KeyDepth kf nheads))) =
      (kf mod nheads \<noteq> 0)) \<and>
   ((init ws ic kf vf ofl nheads p lt = Inl (ValueError (ValueDepth vf nheads))) =
      (kf mod nheads = 0 \<and> vf mod nheads \<noteq> 0)) \<and>
   ((init ws ic kf vf ofl nheads p lt = Inl (ValueError (LayerType lt))) =
      (kf mod nheads = 0 \<and> vf mod nheads = 0 \<and> lt \<notin> {''SAME'', ''DOWN'', ''UP''})) \<and>
   (kf mod nheads = 0 \<and> vf mod nheads = 0 \<and> lt \<in> {''SAME'', ''DOWN'', ''UP''} \<and>
    0 \<le> ic \<and> 0 \<le> kf \<and> 0 \<le> vf \<and> 0 \<le> ofl \<and> 0 \<le> p \<and> p \<le> 1
      \<longrightarrow> succeeds (init ws ic kf vf ofl nheads p lt))"
  by (auto simp add: init_defs is_ConfigurationError_def succeeds_def split: if_splits)

theorem init_validation_witness:
  "(2::int) \<noteq> 0 \<and>
   init zero_parameters 4 3 4 8 2 (1 / 2) ''SAME'' = Inl (ValueError (KeyDepth 3 2)) \<and>
   init zero_parameters 4 4 5 8 2 (1 / 2) ''SAME'' = Inl (ValueError (ValueDepth 5 2)) \<and>
   init zero_parameters 4 4 4 8 2 (1 / 2) ''SIDEWAYS'' = Inl (ValueError (LayerType ''SIDEWAYS'')) \<and>
   init zero_parameters 4 3 5 8 2 (1 / 2) ''SIDEWAYS'' = Inl (ValueError (KeyDepth 3 2)) \<and>
   succeeds (init zero_parameters 4 4 4 8 2 (1 / 2) ''DOWN'')"
  using init_validation [of 2 zero_parameters 4 3 4 8 "1 / 2" "''SAME''"]
    init_validation [of 2 zero_parameters 4 4 5 8 "1 / 2" "''SAME''"]
    init_validation [of 2 zero_parameters 4 4 4 8 "1 / 2" "''SIDEWAYS''"]
    init_validation [of 2 zero_parameters 4 3 5 8 "1 / 2" "''SIDEWAYS''"]
    init_validation [of 2 zero_parameters 4 4 4 8 "1 / 2" "''DOWN''"]
  by simp

text \<open>
  C2 as stated fails at \<open>num_heads = 0\<close>: with \<open>key_filters = 4\<close> the constructor raises
  \<open>ZeroDivisionError\<close>, which is no \<open>ValueError\<close>, and with \<open>key_filters = value_filters = 0\<close>
  it does not succeed either. It also fails for a dropout probability of 2, where all
  three conditions hold and the runtime's \<open>Dropout\<close> raises a \<open>ValueError\<close>.
\<close>

theorem init_validation_counterexample:
  "init zero_parameters 1 4 4 8 0 (1 / 2) ''SAME'' = Inl ZeroDivisionError \<and>
   \<not> is_ValueError (init zero_parameters 1 4 4 8 0 (1 / 2) ''SAME'') \<and>
   init zero_parameters 1 0 0 8 0 (1 / 2) ''SAME'' = Inl ZeroDivisionError \<and>
   \<not> succeeds (init zero_parameters 1 0 0 8 0 (1 / 2) ''SAME'') \<and>
   (4::int) mod 2 = 0 \<and> ''SAME'' \<in> {''SAME'', ''DOWN'', ''UP''} \<and>
   is_ValueError (init zero_parameters 1 4 4 8 2 2 ''SAME'')"
  by (simp add: init_defs is_ValueError_def succeeds_def)

section \<open>Shapes along the forward pass\<close>

lemma upt_5: "[0..<5] = [0, 1, 2, 3, 4]"
  by (simp add: upt_rec)

lemma upt_2: "[0..<2] = [0, 1]"
  by (simp add: upt_rec)

lemma conv3d_forward_shape:
  assumes "shape x = [B, C, D, H, W]" "C = in_channels m"
    "kernel_size m \<le> D + 2 * padding m" "kernel_size m \<le> H + 2 * padding m"
    "kernel_size m \<le> W + 2 * padding m" "0 < in_channels m" "0 < out_channels m"
  shows "\<exists>y. conv3d_forward m x = Inr y \<and>
    shape y = [B, out_channels m,
      (D + 2 * padding m - kernel_size m) div stride m + 1,
      (H + 2 * padding m - kernel_size m) div stride m + 1,
      (W + 2 * padding m - kernel_size m) div stride m + 1]"
  using assms by (simp add: conv3d_forward_def conv3d_batched_def Let_def)

lemma conv_transpose3d_forward_shape:
  assumes "shape x = [B, C, D, H, W]" "C = in_channels m" "0 < D" "0 < H" "0 < W"
    "0 < in_channels m" "0 < out_channels m"
    "valid_output_size (kernel_size m) (stride m) (padding m) D od"
    "valid_output_size (kernel_size m) (stride m) (padding m) H oh"
    "valid_output_size (kernel_size m) (stride m) (padding m) W ow"
  shows "\<exists>y. conv_transpose3d_forward m x (Some (od, oh, ow)) = Inr y \<and>
    shape y = [B, out_channels m, od, oh, ow]"
  using assms
  by (simp add: conv_transpose3d_forward_def conv_transpose3d_batched_def Let_def ebind_def)

lemma permute_02341_shape:
  assumes "shape x = [a, b, c, d, e]"
  shows "\<exists>y. permute [0, 2, 3, 4, 1] x = Inr y \<and> shape y = [a, c, d, e, b]"
  using assms by (simp add: permute_def Let_def)

lemma permute_04123_shape:
  assumes "shape x = [a, b, c, d, e]"
  shows "\<exists>y. permute [0, 4, 1, 2, 3] x = Inr y \<and> shape y = [a, e, b, c, d]"
  using assms by (simp add: permute_def Let_def)

lemma transpose_01_shape:
  assumes "shape x = [n, m]"
  shows "\<exists>y. transpose_dims 0 1 x = Inr y \<and> shape y = [m, n]"
  using assms by (simp add: transpose_dims_def permute_def Let_def upt_2)

lemma split_heads_shape:
  assumes "shape x = [a, b, c, d, nat nh * e]" "0 < nh"
  shows "split_heads x nh = Inr \<lparr>shape = [a, b, c, d, nat nh, e], data = data x\<rparr>"
proof -
  have "int (nat nh * e) div nh = int e"
    using assms(2) by simp
  then have "py_int_truediv (int (nat nh * e)) nh = Inr (int e)"
    using assms(2) by (cases "e = 0") (simp_all add: py_int_truediv_def)
  then show ?thesis
    using assms by (simp add: split_heads_def Let_def ebind_def view_def nat_mult_distrib)
qed

lemma flatten_04:
  assumes "shape x = [a, b, c, d, n, e]"
  shows "flatten x 0 4 = Inr \<lparr>shape = [a * b * c * d * n, e], data = data x\<rparr>"
  using assms by (simp add: flatten_def Let_def numeral_eq_Suc mult.assoc)

lemma matmul_shape:
  assumes "shape a = [n, m]" "shape b = [m, p]"
  shows "\<exists>y. matmul a b = Inr y \<and> shape y = [n, p]"
  using assms by (simp add: matmul_def)

lemma softmax_1_shape:
  assumes "shape a = [n, m]"
  shows "\<exists>y. softmax a 1 = Inr y \<and> shape y = [n, m]"
  using assms by (simp add: softmax_def)

lemma nat_heads_split:
  assumes "0 < nh" "v mod nh = 0"
  shows "nat v = nat nh * nat (v div nh)"
proof -
  have "v = nh * (v div nh)"
    using assms(2) by auto
  then have "nat v = nat (nh * (v div nh))"
    by simp
  then show ?thesis
    using assms(1) by (simp add: nat_mult_distrib)
qed

lemma init_fields:
  assumes "init ws ic kf vf ofl nh p lt = Inr L"
  shows "nh \<noteq> 0 \<and> kf mod nh = 0 \<and> vf mod nh = 0 \<and> lt \<in> {''SAME'', ''DOWN'', ''UP''} \<and>
    0 \<le> ic \<and> 0 \<le> kf \<and> 0 \<le> vf \<and> 0 \<le> ofl \<and> 0 \<le> p \<and> p \<le> 1 \<and>
    num_heads L = nh \<and> layer_type L = lt \<and>
    KeyTransform L = \<lparr>in_channels = nat ic, out_channels = nat kf, kernel_size = 1,
      stride = 1, padding = 0, weight = fst (key_init ws), bias = snd (key_init ws)\<rparr> \<and>
    ValueTransform L = \<lparr>in_channels = nat ic, out_channels = nat vf, kernel_size = 1,
      stride = 1, padding = 0, weight = fst (value_init ws), bias = snd (value_init ws)\<rparr> \<and>
    outputConv L = \<lparr>in_channels = nat vf, out_channels = nat ofl, kernel_size = 1,
      stride = 1, padding = 0, weight = fst (output_init ws), bias = snd (output_init ws)\<rparr> \<and>
    attention_dropout L = Dropout p \<and> scale L = py_pow_half (kf div nh) \<and> training L = True \<and>
    QueryTransform L =
      Some (if lt = ''SAME'' then
              Conv3d \<lparr>in_channels = nat ic, out_channels = nat kf, kernel_size = 1,
                stride = 1, padding = 0, weight = fst (query_init ws), bias = snd (query_init ws)\<rparr>
            else if lt = ''DOWN'' then
              Conv3d \<lparr>in_channels = nat ic, out_channels = nat kf, kernel_size = 3,
                stride = 2, padding = 1, weight = fst (query_init ws), bias = snd (query_init ws)\<rparr>
            else
              ConvTranspose3d \<lparr>in_channels = nat ic, out_channels = nat kf, kernel_size = 3,
                stride = 2, padding = 1, weight = fst (query_init ws), bias = snd (query_init ws)\<rparr>)"
  using assms by (auto simp add: init_defs split: if_splits)

lemma query_projection_shape:
  assumes "init ws ic kf vf ofl nh p lt = Inr L" "shape x = [B, nat ic, D, H, W]"
    "0 < D" "0 < H" "0 < W" "0 < ic" "0 < kf"
  shows "\<exists>q. query_projection L x = Inr (Some q) \<and>
    shape q = [B, nat kf, query_size lt D, query_size lt H, query_size lt W]"
proof -
  note f = init_fields [OF assms(1)]
  from f have lt: "lt = ''SAME'' \<or> lt = ''DOWN'' \<or> lt = ''UP''" by simp
  then show ?thesis
  proof (elim disjE)
    assume s: "lt = ''SAME''"
    obtain y where "conv3d_forward \<lparr>in_channels = nat ic, out_channels = nat kf, kernel_size = 1,
                stride = 1, padding = 0, weight = fst (query_init ws), bias = snd (query_init ws)\<rparr> x = Inr y"
      "shape y = [B, nat kf, D, H, W]"
      using conv3d_forward_shape [OF assms(2), of "\<lparr>in_channels = nat ic, out_channels = nat kf, kernel_size = 1,
                stride = 1, padding = 0, weight = fst (query_init ws), bias = snd (query_init ws)\<rparr>"] assms(3-7)
      by auto
    then show ?thesis using f s
      by (simp add: query_projection_def call_module_def ebind_def query_size_def)
  next
    assume s: "lt = ''DOWN''"
    obtain y where "conv3d_forward \<lparr>in_channels = nat ic, out_channels = nat kf, kernel_size = 3,
                stride = 2, padding = 1, weight = fst (query_init ws), bias = snd (query_init ws)\<rparr> x = Inr y"
      "shape y = [B, nat kf, (D + 2 * 1 - 3) div 2 + 1, (H + 2 * 1 - 3) div 2 + 1, (W + 2 * 1 - 3) div 2 + 1]"
      using conv3d_forward_shape [OF assms(2), of "\<lparr>in_channels = nat ic, out_channels = nat kf, kernel_size = 3,
                stride = 2, padding = 1, weight = fst (query_init ws), bias = snd (query_init ws)\<rparr>"] assms(3-7)
      by auto
    then show ?thesis using f s
      by (simp add: query_projection_def call_module_def ebind_def query_size_def)
  next
    assume s: "lt = ''UP''"
    have v: "valid_output_size 3 2 1 D (D * 2)" "valid_output_size 3 2 1 H (H * 2)"
      "valid_output_size 3 2 1 W (W * 2)"
      by (simp_all add: valid_output_size_def)
    obtain y where "conv_transpose3d_forward \<lparr>in_channels = nat ic, out_channels = nat kf, kernel_size = 3,
                stride = 2, padding = 1, weight = fst (query_init ws), bias = snd (query_init ws)\<rparr> x
                (Some (D * 2, H * 2, W * 2)) = Inr y"
      "shape y = [B, nat kf, D * 2, H * 2, W * 2]"
      using conv_transpose3d_forward_shape [OF assms(2), of "\<lparr>in_channels = nat ic, out_channels = nat kf, kernel_size = 3,
                stride = 2, padding = 1, weight = fst (query_init ws), bias = snd (query_init ws)\<rparr>" "D * 2" "H * 2" "W * 2"]
        assms(3-7) v
      by auto
    then show ?thesis using f s assms(2)
      by (simp add: query_projection_def call_module_def ebind_def query_size_def)
  qed
qed

lemma attend_shapes:
  assumes i: "init ws ic kf vf ofl nh p lt = Inr L" and nh: "0 < nh"
    and x: "shape x = [B, nat ic, D, H, W]" and pos: "0 < D" "0 < H" "0 < W"
    and ch: "0 < ic" "0 < kf" "0 < vf"
  shows "\<exists>att. attend L x = Inr att \<and>
    query_projection L x = Inr (Some (q_proj att)) \<and>
    conv3d_forward (KeyTransform L) x = Inr (k_proj att) \<and>
    conv3d_forward (ValueTransform L) x = Inr (v_proj att) \<and>
    shape (q_proj att) = [B, nat kf, query_size lt D, query_size lt H, query_size lt W] \<and>
    shape (k_proj att) = [B, nat kf, D, H, W] \<and>
    shape (v_proj att) = [B, nat vf, D, H, W] \<and>
    shape (q_flat att) =
      [B * query_size lt D * query_size lt H * query_size lt W * nat nh, nat (kf div nh)] \<and>
    shape (k_flat att) = [B * D * H * W * nat nh, nat (kf div nh)] \<and>
    shape (v_flat att) = [B * D * H * W * nat nh, nat (vf div nh)] \<and>
    div_scalar (q_flat att) (scale L) = Inr (q_scaled att) \<and>
    (\<exists>kT. transpose_dims 0 1 (k_flat att) = Inr kT \<and> matmul (q_scaled att) kT = Inr (A_sim att)) \<and>
    softmax (A_sim att) 1 = Inr (A_soft att) \<and>
    shape (A_sim att) =
      [B * query_size lt D * query_size lt H * query_size lt W * nat nh, B * D * H * W * nat nh] \<and>
    shape (A_soft att) =
      [B * query_size lt D * query_size lt H * query_size lt W * nat nh, B * D * H * W * nat nh] \<and>
    q_dims att = (B, query_size lt D, query_size lt H, query_size lt W) \<and>
    (\<exists>k1 v1. permute [0, 2, 3, 4, 1] (k_proj att) = Inr k1 \<and> data (k_flat att) = data k1 \<and>
       permute [0, 2, 3, 4, 1] (v_proj att) = Inr v1 \<and> data (v_flat att) = data v1)"
proof -
  note f = init_fields [OF i]
  define ck where "ck = nat (kf div nh)"
  define cv where "cv = nat (vf div nh)"
  have kf: "nat kf = nat nh * ck" and vf: "nat vf = nat nh * cv"
    using f nh nat_heads_split [of nh kf] nat_heads_split [of nh vf]
    by (simp_all add: ck_def cv_def)
  have nhL: "num_heads L = nh"
    using f by simp
  have sc: "scale L = PyFloat (sqrt (of_int (kf div nh)))"
    using f nh by (simp add: py_pow_half_def pos_imp_zdiv_nonneg_iff)
  obtain q where q: "query_projection L x = Inr (Some q)"
    "shape q = [B, nat kf, query_size lt D, query_size lt H, query_size lt W]"
    using query_projection_shape [OF i x pos ch(1,2)] by blast
  obtain k0 where k0: "conv3d_forward (KeyTransform L) x = Inr k0" "shape k0 = [B, nat kf, D, H, W]"
    using conv3d_forward_shape [OF x, of "KeyTransform L"] f pos ch by auto
  obtain v0 where v0: "conv3d_forward (ValueTransform L) x = Inr v0" "shape v0 = [B, nat vf, D, H, W]"
    using conv3d_forward_shape [OF x, of "ValueTransform L"] f pos ch by auto
  obtain k1 where k1: "permute [0, 2, 3, 4, 1] k0 = Inr k1" "shape k1 = [B, D, H, W, nat nh * ck]"
    using permute_02341_shape [OF k0(2)] kf by auto
  obtain v1 where v1: "permute [0, 2, 3, 4, 1] v0 = Inr v1" "shape v1 = [B, D, H, W, nat nh * cv]"
    using permute_02341_shape [OF v0(2)] vf by auto
  obtain q1 where q1: "permute [0, 2, 3, 4, 1] q = Inr q1"
    "shape q1 = [B, query_size lt D, query_size lt H, query_size lt W, nat nh * ck]"
    using permute_02341_shape [OF q(2)] kf by auto
  note k2 = split_heads_shape [OF k1(2) nh]
  note v2 = split_heads_shape [OF v1(2) nh]
  note q2 = split_heads_shape [OF q1(2) nh]
  define k3 where "k3 = \<lparr>shape = [B * D * H * W * nat nh, ck], data = data k1\<rparr>"
  define v3 where "v3 = \<lparr>shape = [B * D * H * W * nat nh, cv], data = data v1\<rparr>"
  define q3 where "q3 = \<lparr>shape = [B * query_size lt D * query_size lt H * query_size lt W * nat nh, ck],
    data = data q1\<rparr>"
  have k3: "flatten \<lparr>shape = [B, D, H, W, nat nh, ck], data = data k1\<rparr> 0 4 = Inr k3"
    by (simp add: flatten_04 k3_def)
  have v3: "flatten \<lparr>shape = [B, D, H, W, nat nh, cv], data = data v1\<rparr> 0 4 = Inr v3"
    by (simp add: flatten_04 v3_def)
  have q3: "flatten \<lparr>shape = [B, query_size lt D, query_size lt H, query_size lt W, nat nh, ck],
      data = data q1\<rparr> 0 4 = Inr q3"
    by (simp add: flatten_04 q3_def)
  define q4 where "q4 = \<lparr>shape = shape q3, data = map (\<lambda>v. v / sqrt (of_int (kf div nh))) (data q3)\<rparr>"
  have q4: "div_scalar q3 (scale L) = Inr q4"
    by (simp add: div_scalar_def sc q4_def)
  have sq4: "shape q4 = [B * query_size lt D * query_size lt H * query_size lt W * nat nh, ck]"
    by (simp add: q4_def q3_def)
  obtain kT where kT: "transpose_dims 0 1 k3 = Inr kT" "shape kT = [ck, B * D * H * W * nat nh]"
    using transpose_01_shape [of k3] by (auto simp add: k3_def)
  obtain A0 where A0: "matmul q4 kT = Inr A0"
    "shape A0 = [B * query_size lt D * query_size lt H * query_size lt W * nat nh, B * D * H * W * nat nh]"
    using matmul_shape [OF sq4 kT(2)] by blast
  obtain A1 where A1: "softmax A0 1 = Inr A1"
    "shape A1 = [B * query_size lt D * query_size lt H * query_size lt W * nat nh, B * D * H * W * nat nh]"
    using softmax_1_shape [OF A0(2)] by blast
  have "attend L x = Inr \<lparr>q_proj = q, k_proj = k0, v_proj = v0, q_flat = q3, k_flat = k3, v_flat = v3,
          q_scaled = q4, A_sim = A0, A_soft = A1,
          q_dims = (shape q1 ! 0, shape q1 ! 1, shape q1 ! 2, shape q1 ! 3)\<rparr>"
    by (simp only: attend_def ebind_def nhL q(1) k0(1) v0(1) k1(1) v1(1) q1(1) k2 v2 q2 k3 v3 q3 q4
        kT(1) A0(1) A1(1) sum.case option.case)
  moreover have "\<exists>k1' v1'. permute [0, 2, 3, 4, 1] k0 = Inr k1' \<and> data k3 = data k1' \<and>
      permute [0, 2, 3, 4, 1] v0 = Inr v1' \<and> data v3 = data v1'"
    using k1(1) v1(1) by (simp add: k3_def v3_def)
  ultimately show ?thesis
    using q k0 v0 q4 kT A0 A1 q1(2)
    by (simp add: k3_def v3_def q3_def ck_def cv_def)
qed

lemma dropout_forward_shape: "shape (fst (dropout_forward bern m train g a)) = shape a"
  by (cases m) (simp add: dropout_forward_def split: prod.splits)

lemma query_size_pos: "0 < d \<Longrightarrow> 0 < query_size lt d"
  by (simp add: query_size_def)

lemma prod_list_int: "prod_list (map int sh) = int (prod_list sh)"
  by (induction sh) simp_all

lemma view_sizes:
  assumes "prod_list sh = prod_list (shape x)"
  shows "view (map int sh) x = Inr \<lparr>shape = sh, data = data x\<rparr>"
proof -
  have "\<not> list_ex (\<lambda>s. s < - 1) (map int sh)"
    by (induction sh) simp_all
  moreover have "- 1 \<notin> set (map int sh)"
    by auto
  moreover have "count_list (map int sh) (- 1) = 0"
    by (induction sh) simp_all
  moreover have "map nat (map int sh) = sh"
    by (simp add: comp_def)
  ultimately show ?thesis
    using assms by (simp add: view_def prod_list_int del: list.map set_map)
qed

lemma view_5:
  assumes "shape x = [a * b * c * d * n, e]"
  shows "view [int a, int b, int c, int d, int e * int n] x =
    Inr \<lparr>shape = [a, b, c, d, e * n], data = data x\<rparr>"
proof -
  have "prod_list [a, b, c, d, e * n] = prod_list (shape x)"
    using assms by (simp add: mult.commute mult.left_commute)
  from view_sizes [OF this] show ?thesis
    by simp
qed

lemma project_output_shape:
  assumes i: "init ws ic kf vf ofl nh p lt = Inr L" and nh: "0 < nh"
    and A: "shape A = [B * Dq * Hq * Wq * nat nh, M]"
    and v: "shape (v_flat att) = [M, nat (vf div nh)]"
    and d: "q_dims att = (B, Dq, Hq, Wq)" and pos: "0 < Dq" "0 < Hq" "0 < Wq"
    and ch: "0 < vf" "0 < ofl"
  shows "\<exists>y. project_output L att A = Inr y \<and> shape y = [B, nat ofl, Dq, Hq, Wq]"
proof -
  note f = init_fields [OF i]
  define cv where "cv = nat (vf div nh)"
  have vf: "nat vf = cv * nat nh"
    using f nh nat_heads_split [of nh vf] by (simp add: cv_def mult.commute)
  have nhL: "num_heads L = int (nat nh)"
    using f nh by simp
  have lastv: "last (shape (v_flat att)) = cv"
    using v by (simp add: cv_def)
  obtain O1 where O1: "matmul A (v_flat att) = Inr O1" "shape O1 = [B * Dq * Hq * Wq * nat nh, cv]"
    using matmul_shape [OF A v] by (auto simp add: cv_def)
  note O2 = view_5 [OF O1(2)]
  obtain O3 where O3: "permute [0, 4, 1, 2, 3] \<lparr>shape = [B, Dq, Hq, Wq, cv * nat nh], data = data O1\<rparr> = Inr O3"
    "shape O3 = [B, cv * nat nh, Dq, Hq, Wq]"
    using permute_04123_shape [of "\<lparr>shape = [B, Dq, Hq, Wq, cv * nat nh], data = data O1\<rparr>"] by auto
  have cvpos: "0 < cv"
    using vf ch(1) by (cases cv) simp_all
  obtain y where y: "conv3d_forward (outputConv L) O3 = Inr y" "shape y = [B, nat ofl, Dq, Hq, Wq]"
    using conv3d_forward_shape [OF O3(2), of "outputConv L"] f pos vf ch cvpos nh by auto
  have "project_output L att A = Inr y"
    by (simp only: project_output_def ebind_def O1(1) d prod.case lastv nhL O2 O3(1) y(1) sum.case)
  then show ?thesis
    using y(2) by simp
qed

lemma attend_training: "attend (L\<lparr>training := t\<rparr>) x = attend L x"
  by (simp add: attend_def query_projection_def)

lemma project_output_training: "project_output (L\<lparr>training := t\<rparr>) att A = project_output L att A"
  by (simp add: project_output_def)

lemma init_succeeds:
  assumes "nh \<noteq> 0" "kf mod nh = 0" "vf mod nh = 0" "lt \<in> {''SAME'', ''DOWN'', ''UP''}"
    "0 \<le> ic" "0 \<le> kf" "0 \<le> vf" "0 \<le> ofl" "0 \<le> p" "p \<le> 1"
  shows "\<exists>L. init ws ic kf vf ofl nh p lt = Inr L"
  using assms by (auto simp add: init_defs)

lemma forward_mode_succeeds:
  assumes i: "init ws ic kf vf ofl nh p lt = Inr L" and nh: "0 < nh"
    and x: "shape x = [B, nat ic, D, H, W]" and pos: "0 < D" "0 < H" "0 < W"
    and ch: "0 < ic" "0 < kf" "0 < vf" "0 < ofl"
  shows "\<exists>y. fst (forward bern (L\<lparr>training := t\<rparr>) g x) = Inr y \<and>
    shape y = [B, nat ofl, query_size lt D, query_size lt H, query_size lt W]"
proof -
  obtain att where att: "attend L x = Inr att"
    "shape (A_soft att) =
      [B * query_size lt D * query_size lt H * query_size lt W * nat nh, B * D * H * W * nat nh]"
    "shape (v_flat att) = [B * D * H * W * nat nh, nat (vf div nh)]"
    "q_dims att = (B, query_size lt D, query_size lt H, query_size lt W)"
    using attend_shapes [OF i nh x pos ch(1-3)] by blast
  define A where "A = fst (dropout_forward bern (attention_dropout L) t g (A_soft att))"
  have "shape A =
      [B * query_size lt D * query_size lt H * query_size lt W * nat nh, B * D * H * W * nat nh]"
    by (simp add: A_def dropout_forward_shape att(2))
  from project_output_shape [OF i nh this att(3) att(4) _ _ _ ch(3,4)] pos
  obtain y where "project_output L att A = Inr y"
    "shape y = [B, nat ofl, query_size lt D, query_size lt H, query_size lt W]"
    by (auto simp add: query_size_pos)
  then show ?thesis
    by (simp add: forward_def attend_training project_output_training att(1) A_def case_prod_beta)
qed

text \<open>
  What a returning call implies. A convolution returns only for a module with input and
  output channels, on an input of its channel count that is no smaller than its kernel;
  \<open>split_heads\<close> returns only for a positive number of heads, a negative one making
  the sizes of its \<open>view\<close> negative.
\<close>

lemma conv3d_forward_channels:
  assumes "conv3d_forward m x = Inr y"
  shows "0 < in_channels m \<and> 0 < out_channels m"
  using assms
  by (auto simp add: conv3d_forward_def conv3d_batched_def ebind_def Let_def
      split: list.splits if_splits sum.splits)

lemma conv3d_forward_inv:
  assumes "conv3d_forward m x = Inr y" "shape x = [B, C, D, H, W]"
  shows "C = in_channels m \<and> kernel_size m \<le> D + 2 * padding m \<and>
    kernel_size m \<le> H + 2 * padding m \<and> kernel_size m \<le> W + 2 * padding m"
  using assms
  by (auto simp add: conv3d_forward_def conv3d_batched_def Let_def split: if_splits)

lemma split_heads_inv:
  assumes "split_heads x nh = Inr y" "shape x = [a, b, c, d, e]"
  shows "0 < nh"
proof (rule ccontr)
  assume "\<not> 0 < nh"
  then have n: "nh = 0 \<or> nh < - 1 \<or> nh = - 1"
    by arith
  have e: "2 \<le> e \<or> e = 1 \<or> e = 0"
    by arith
  from n e consider "nh = 0" | "nh < - 1" | "nh = - 1" "2 \<le> e" | "nh = - 1" "e = 1" | "nh = - 1" "e = 0"
    by blast
  then show False
  proof cases
    case 1
    then show False
      using assms by (simp add: split_heads_def py_int_truediv_def ebind_def)
  next
    case 2
    then show False
      using assms by (simp add: split_heads_def py_int_truediv_def ebind_def view_def Let_def)
  next
    case 3
    then have "- int e < - 1"
      by simp
    with 3 show False
      using assms by (simp add: split_heads_def py_int_truediv_def ebind_def view_def Let_def)
  next
    case 4
    then show False
      using assms by (simp add: split_heads_def py_int_truediv_def ebind_def view_def Let_def)
  next
    case 5
    then show False
      using assms by (simp add: split_heads_def py_int_truediv_def ebind_def view_def Let_def)
  qed
qed

lemma attend_steps:
  assumes "attend L x = Inr att"
  shows "query_projection L x = Inr (Some (q_proj att)) \<and>
    conv3d_forward (KeyTransform L) x = Inr (k_proj att) \<and>
    conv3d_forward (ValueTransform L) x = Inr (v_proj att) \<and>
    head_rows (q_proj att) (num_heads L) = Inr (q_flat att) \<and>
    head_rows (k_proj att) (num_heads L) = Inr (k_flat att) \<and>
    head_rows (v_proj att) (num_heads L) = Inr (v_flat att) \<and>
    div_scalar (q_flat att) (scale L) = Inr (q_scaled att) \<and>
    (\<exists>kT. transpose_dims 0 1 (k_flat att) = Inr kT \<and> matmul (q_scaled att) kT = Inr (A_sim att)) \<and>
    softmax (A_sim att) 1 = Inr (A_soft att) \<and>
    (\<exists>q1. permute [0, 2, 3, 4, 1] (q_proj att) = Inr q1 \<and>
       q_dims att = (shape q1 ! 0, shape q1 ! 1, shape q1 ! 2, shape q1 ! 3))"
  using assms
  by (auto simp add: attend_def head_rows_def ebind_def split: sum.splits option.splits)

lemma split_heads_negative:
  assumes "shape x = [a, b, c, d, e]" "nh < 0"
  shows "split_heads x nh = Inl RuntimeError"
proof -
  from assms(2) have n: "nh < - 1 \<or> nh = - 1"
    by arith
  have e: "2 \<le> e \<or> e = 1 \<or> e = 0"
    by arith
  from n e consider "nh < - 1" | "nh = - 1" "2 \<le> e" | "nh = - 1" "e = 1" | "nh = - 1" "e = 0"
    by blast
  then show ?thesis
  proof cases
    case 1
    then show ?thesis
      using assms by (simp add: split_heads_def py_int_truediv_def ebind_def view_def Let_def)
  next
    case 2
    then have "- int e < - 1"
      by simp
    with 2 show ?thesis
      using assms by (simp add: split_heads_def py_int_truediv_def ebind_def view_def Let_def)
  next
    case 3
    then show ?thesis
      using assms by (simp add: split_heads_def py_int_truediv_def ebind_def view_def Let_def)
  next
    case 4
    then show ?thesis
      using assms by (simp add: split_heads_def py_int_truediv_def ebind_def view_def Let_def)
  qed
qed

lemma attend_conditions:
  assumes i: "init ws ic kf vf ofl nh p lt = Inr L"
    and x: "shape x = [B, nat ic, D, H, W]" and a: "attend L x = Inr att"
  shows "0 < nh \<and> 0 < ic \<and> 0 < kf \<and> 0 < vf \<and> 0 < D \<and> 0 < H \<and> 0 < W"
proof -
  note f = init_fields [OF i]
  note st = attend_steps [OF a]
  from st have k: "conv3d_forward (KeyTransform L) x = Inr (k_proj att)"
    and v: "conv3d_forward (ValueTransform L) x = Inr (v_proj att)"
    and h: "head_rows (k_proj att) (num_heads L) = Inr (k_flat att)"
    by simp_all
  from conv3d_forward_channels [OF k] conv3d_forward_channels [OF v] f
  have ch: "0 < ic" "0 < kf" "0 < vf"
    by simp_all
  from conv3d_forward_inv [OF k x] f have pos: "0 < D" "0 < H" "0 < W"
    by simp_all
  from conv3d_forward_shape [OF x, of "KeyTransform L"] k f pos ch
  have sk: "shape (k_proj att) = [B, nat kf, D, H, W]"
    by auto
  from h obtain k1 k2 where k1: "permute [0, 2, 3, 4, 1] (k_proj att) = Inr k1"
    and k2: "split_heads k1 (num_heads L) = Inr k2"
    by (auto simp add: head_rows_def ebind_def split: sum.splits)
  from permute_02341_shape [OF sk] k1 have "shape k1 = [B, D, H, W, nat kf]"
    by auto
  from split_heads_inv [OF k2 this] f have "0 < nh"
    by simp
  with ch pos show ?thesis
    by simp
qed

lemma forward_returns:
  assumes "fst (forward bern L g x) = Inr y"
  shows "(\<exists>att. attend L x = Inr att) \<and> 0 < out_channels (outputConv L)"
  using assms
  by (auto simp add: forward_def project_output_def ebind_def case_prod_beta
      split: sum.splits dest: conv3d_forward_channels)

lemma forward_negative_heads:
  assumes i: "init ws ic kf vf ofl nh p lt = Inr L" and nh: "nh < 0"
    and x: "shape x = [B, nat ic, D, H, W]" and pos: "0 < D" "0 < H" "0 < W"
    and ch: "0 < ic" "0 < kf" "0 < vf"
  shows "forward bern L g x = (Inl RuntimeError, g)"
proof -
  note f = init_fields [OF i]
  have nhL: "num_heads L = nh"
    using f by simp
  obtain q where q: "query_projection L x = Inr (Some q)"
    "shape q = [B, nat kf, query_size lt D, query_size lt H, query_size lt W]"
    using query_projection_shape [OF i x pos ch(1,2)] by blast
  obtain k0 where k0: "conv3d_forward (KeyTransform L) x = Inr k0" "shape k0 = [B, nat kf, D, H, W]"
    using conv3d_forward_shape [OF x, of "KeyTransform L"] f pos ch by auto
  obtain v0 where v0: "conv3d_forward (ValueTransform L) x = Inr v0" "shape v0 = [B, nat vf, D, H, W]"
    using conv3d_forward_shape [OF x, of "ValueTransform L"] f pos ch by auto
  obtain k1 where k1: "permute [0, 2, 3, 4, 1] k0 = Inr k1" "shape k1 = [B, D, H, W, nat kf]"
    using permute_02341_shape [OF k0(2)] by auto
  obtain v1 where v1: "permute [0, 2, 3, 4, 1] v0 = Inr v1"
    using permute_02341_shape [OF v0(2)] by auto
  obtain q1 where q1: "permute [0, 2, 3, 4, 1] q = Inr q1"
    using permute_02341_shape [OF q(2)] by auto
  note k2 = split_heads_negative [OF k1(2) nh]
  have "attend L x = Inl RuntimeError"
    by (simp only: attend_def ebind_def nhL q(1) k0(1) v0(1) k1(1) v1 q1 k2 sum.case option.case)
  then show ?thesis
    by (simp add: forward_def)
qed

section \<open>The claims about shapes\<close>


text \<open>
  C3, as amended. Let the layer be constructed and the input have shape [B, Cin, D, H, W]
  with Cin the \<open>in_channel\<close> of the constructor. If the number of heads, the four channel
  counts (\<open>in_channel\<close>, \<open>key_filters\<close>, \<open>value_filters\<close>, \<open>output_filters\<close>) and D, H, W
  are positive, \<open>forward\<close> returns a tensor. Whenever \<open>forward\<close> returns a tensor, its
  shape is [B, output_filters, Dq, Hq, Wq], where each of Dq, Hq, Wq is the input's
  size in SAME mode, \<open>floor((d + 2 * 1 - 3) / 2) + 1\<close> in DOWN mode and \<open>2 * d\<close> in UP
  mode (\<open>query_size\<close>), and all those quantities are positive: for a negative number of
  heads, a channel count of zero or an empty spatial axis \<open>forward\<close> raises.
\<close>

theorem forward_output_shape:
  assumes "init ws in_channel key_filters value_filters output_filters nheads dropout_prob ltype = Inr L"
    and "shape inputs = [B, nat in_channel, D, H, W]"
  shows "(0 < nheads \<and> 0 < in_channel \<and> 0 < key_filters \<and> 0 < value_filters \<and>
       0 < output_filters \<and> 0 < D \<and> 0 < H \<and> 0 < W \<longrightarrow>
       (\<exists>y. fst (forward bernoulli (L\<lparr>training := t\<rparr>) g inputs) = Inr y)) \<and>
    (\<forall>y. fst (forward bernoulli (L\<lparr>training := t\<rparr>) g inputs) = Inr y \<longrightarrow>
       shape y = [B, nat output_filters, query_size ltype D, query_size ltype H, query_size ltype W] \<and>
       0 < nheads \<and> 0 < in_channel \<and> 0 < key_filters \<and> 0 < value_filters \<and>
       0 < output_filters \<and> 0 < D \<and> 0 < H \<and> 0 < W)"
proof -
  have "\<exists>y. fst (forward bernoulli (L\<lparr>training := t\<rparr>) g inputs) = Inr y"
    if "0 < nheads \<and> 0 < in_channel \<and> 0 < key_filters \<and> 0 < value_filters \<and>
       0 < output_filters \<and> 0 < D \<and> 0 < H \<and> 0 < W"
  proof -
    from that have c: "0 < nheads" "0 < D" "0 < H" "0 < W" "0 < in_channel" "0 < key_filters"
      "0 < value_filters" "0 < output_filters"
      by simp_all
    from forward_mode_succeeds [OF assms(1) c(1) assms(2) c(2-8), of bernoulli t g]
    show ?thesis
      by blast
  qed
  moreover have "shape y = [B, nat output_filters, query_size ltype D, query_size ltype H, query_size ltype W] \<and>
       0 < nheads \<and> 0 < in_channel \<and> 0 < key_filters \<and> 0 < value_filters \<and>
       0 < output_filters \<and> 0 < D \<and> 0 < H \<and> 0 < W"
    if y: "fst (forward bernoulli (L\<lparr>training := t\<rparr>) g inputs) = Inr y" for y
  proof -
    note f = init_fields [OF assms(1)]
    from forward_returns [OF y] obtain att where att: "attend L inputs = Inr att"
      and o: "0 < out_channels (outputConv L)"
      by (auto simp add: attend_training)
    from o f have o': "0 < output_filters"
      by simp
    from attend_conditions [OF assms(1,2) att]
    have c: "0 < nheads" "0 < D" "0 < H" "0 < W" "0 < in_channel" "0 < key_filters"
      "0 < value_filters"
      by simp_all
    from forward_mode_succeeds [OF assms(1) c(1) assms(2) c(2-7) o', of bernoulli t g] y
    have "shape y = [B, nat output_filters, query_size ltype D, query_size ltype H, query_size ltype W]"
      by auto
    with c o' show ?thesis
      by simp
  qed
  ultimately show ?thesis
    by blast
qed

theorem forward_output_shape_witness:
  "\<exists>L1 L2 L3 y1 y2 y3.
     init zero_parameters 4 4 4 8 2 (1 / 2) ''SAME'' = Inr L1 \<and>
     init zero_parameters 4 4 4 8 2 (1 / 2) ''DOWN'' = Inr L2 \<and>
     init zero_parameters 4 4 4 8 2 (1 / 2) ''UP'' = Inr L3 \<and>
     shape (zeros [1, 4, 6, 6, 6]) = [1, nat 4, 6, 6, 6] \<and>
     fst (forward no_mask (L1\<lparr>training := False\<rparr>) () (zeros [1, 4, 6, 6, 6])) = Inr y1 \<and>
     shape y1 = [1, 8, 6, 6, 6] \<and>
     fst (forward no_mask (L2\<lparr>training := False\<rparr>) () (zeros [1, 4, 6, 6, 6])) = Inr y2 \<and>
     shape y2 = [1, 8, 3, 3, 3] \<and>
     fst (forward no_mask (L3\<lparr>training := True\<rparr>) () (zeros [1, 4, 6, 6, 6])) = Inr y3 \<and>
     shape y3 = [1, 8, 12, 12, 12]"
proof -
  obtain L1 where L1: "init zero_parameters 4 4 4 8 2 (1 / 2) ''SAME'' = Inr L1"
    using init_succeeds [of 2 4 4 "''SAME''" 4 8 "1 / 2" zero_parameters] by auto
  obtain L2 where L2: "init zero_parameters 4 4 4 8 2 (1 / 2) ''DOWN'' = Inr L2"
    using init_succeeds [of 2 4 4 "''DOWN''" 4 8 "1 / 2" zero_parameters] by auto
  obtain L3 where L3: "init zero_parameters 4 4 4 8 2 (1 / 2) ''UP'' = Inr L3"
    using init_succeeds [of 2 4 4 "''UP''" 4 8 "1 / 2" zero_parameters] by auto
  have x: "shape (zeros [1, 4, 6, 6, 6]) = [1, nat 4, 6, 6, 6]"
    by (simp add: zeros_def)
  note T1 = forward_output_shape [OF L1 x, of no_mask False "()"]
  note T2 = forward_output_shape [OF L2 x, of no_mask False "()"]
  note T3 = forward_output_shape [OF L3 x, of no_mask True "()"]
  from T1 [THEN conjunct1] obtain y1
    where y1: "fst (forward no_mask (L1\<lparr>training := False\<rparr>) () (zeros [1, 4, 6, 6, 6])) = Inr y1"
    by auto
  from T2 [THEN conjunct1] obtain y2
    where y2: "fst (forward no_mask (L2\<lparr>training := False\<rparr>) () (zeros [1, 4, 6, 6, 6])) = Inr y2"
    by auto
  from T3 [THEN conjunct1] obtain y3
    where y3: "fst (forward no_mask (L3\<lparr>training := True\<rparr>) () (zeros [1, 4, 6, 6, 6])) = Inr y3"
    by auto
  from T1 [THEN conjunct2, rule_format, OF y1] have s1: "shape y1 = [1, 8, 6, 6, 6]"
    by (simp add: query_size_def)
  from T2 [THEN conjunct2, rule_format, OF y2] have s2: "shape y2 = [1, 8, 3, 3, 3]"
    by (simp add: query_size_def)
  from T3 [THEN conjunct2, rule_format, OF y3] have s3: "shape y3 = [1, 8, 12, 12, 12]"
    by (simp add: query_size_def)
  from L1 L2 L3 x y1 y2 y3 s1 s2 s3 show ?thesis
    by blast
qed

lemma init_negative_heads_layer: "init zero_parameters 1 1 1 1 (- 1) 0 ''SAME'' = Inr negative_heads_layer"
  by (simp add: init_defs zero_parameters_def const_init_def py_pow_half_def negative_heads_layer_def)

lemma init_zero_key_layer: "init zero_parameters 1 0 1 1 1 0 ''SAME'' = Inr zero_key_layer"
  by (simp add: init_defs zero_parameters_def const_init_def py_pow_half_def zero_key_layer_def)

lemma init_down_layer: "init zero_parameters 1 1 1 1 1 0 ''DOWN'' = Inr down_layer"
  by (simp add: init_defs zero_parameters_def const_init_def py_pow_half_def down_layer_def)

text \<open>
  C3 as stated fails for layers that construction accepts and inputs of the stated
  shape: with \<open>num_heads = -1\<close> (which divides every channel count) the \<open>view\<close> of the
  first \<open>split_heads\<close> raises, with \<open>key_filters = 0\<close> the query convolution raises, and
  so it does for an input of depth 0.
\<close>

theorem forward_output_shape_counterexample:
  "init zero_parameters 1 1 1 1 (- 1) 0 ''SAME'' = Inr negative_heads_layer \<and>
   shape (zeros [1, 1, 2, 2, 2]) = [1, nat 1, 2, 2, 2] \<and>
   forward no_mask negative_heads_layer () (zeros [1, 1, 2, 2, 2]) = (Inl RuntimeError, ()) \<and>
   init zero_parameters 1 0 1 1 1 0 ''SAME'' = Inr zero_key_layer \<and>
   forward no_mask zero_key_layer () (zeros [1, 1, 2, 2, 2]) = (Inl RuntimeError, ()) \<and>
   init zero_parameters 1 1 1 1 1 0 ''DOWN'' = Inr down_layer \<and>
   shape (zeros [1, 1, 0, 2, 2]) = [1, nat 1, 0, 2, 2] \<and>
   forward no_mask down_layer () (zeros [1, 1, 0, 2, 2]) = (Inl RuntimeError, ())"
proof -
  have x: "shape (zeros [1, 1, 2, 2, 2]) = [1, nat 1, 2, 2, 2]"
    by (simp add: zeros_def)
  have a: "forward no_mask negative_heads_layer () (zeros [1, 1, 2, 2, 2]) = (Inl RuntimeError, ())"
    using forward_negative_heads [OF init_negative_heads_layer _ x] by simp
  have b: "forward no_mask zero_key_layer () (zeros [1, 1, 2, 2, 2]) = (Inl RuntimeError, ())"
    by (simp add: forward_def attend_def query_projection_def zero_key_layer_def call_module_def
        conv3d_forward_def conv3d_batched_def zeros_def ebind_def)
  have c: "forward no_mask down_layer () (zeros [1, 1, 0, 2, 2]) = (Inl RuntimeError, ())"
    by (simp add: forward_def attend_def query_projection_def down_layer_def call_module_def
        conv3d_forward_def conv3d_batched_def zeros_def ebind_def)
  show ?thesis
    using a b c by (simp add: init_negative_heads_layer init_zero_key_layer init_down_layer zeros_def)
qed






section \<open>The claims about values\<close>

text \<open>
  The elements of a table written as a nested comprehension. Over the real numbers every
  row of a softmax along the second axis sums to 1.
\<close>

lemma length_table:
  "length (concat (map (\<lambda>a. map (f a) [0..<m]) [0..<n])) = n * m"
  by (induction n) simp_all

lemma nth_table:
  assumes "i < n" "j < m"
  shows "concat (map (\<lambda>a. map (f a) [0..<m]) [0..<n]) ! (i * m + j) = f i j"
  using assms
proof (induction n)
  case 0
  then show ?case by simp
next
  case (Suc n)
  show ?case
  proof (cases "i < n")
    case True
    then have "i * m + j < n * m"
      using Suc.prems(2)
      by (metis add.commute add_less_cancel_right less_le_trans mult_Suc mult_le_mono1 Suc_leI)
    with True Suc show ?thesis
      by (simp add: nth_append length_table)
  next
    case False
    with Suc.prems have "i = n" by simp
    with Suc.prems show ?thesis
      by (simp add: nth_append length_table)
  qed
qed

lemma sum_list_divide: "(\<Sum>j\<leftarrow>xs. f j / (z::real)) = (\<Sum>j\<leftarrow>xs. f j) / z"
  by (induction xs) (simp_all add: add_divide_distrib)

lemma sum_list_exp_pos: "xs \<noteq> [] \<Longrightarrow> 0 < (\<Sum>k\<leftarrow>xs. exp (f k :: real))"
proof (induction xs)
  case Nil
  then show ?case by simp
next
  case (Cons a xs)
  have "0 \<le> (\<Sum>k\<leftarrow>xs. exp (f k))"
    by (rule sum_list_nonneg) auto
  then show ?case
    by (simp add: add_pos_nonneg)
qed

lemma softmax_row_sum:
  assumes "softmax a 1 = Inr y" "shape a = [n, m]" "i < n" "0 < m"
  shows "sum_list (row y i) = 1"
proof -
  have y: "y = \<lparr>shape = [n, m],
      data = concat (map (\<lambda>i. map (\<lambda>j. exp (at2 a i j) / (\<Sum>k\<leftarrow>[0..<m]. exp (at2 a i k))) [0..<m]) [0..<n])\<rparr>"
    using assms(1,2) by (simp add: softmax_def)
  have "row y i = map (\<lambda>j. exp (at2 a i j) / (\<Sum>k\<leftarrow>[0..<m]. exp (at2 a i k))) [0..<m]"
    using assms(3) by (simp add: row_def at2_def y nth_table)
  moreover have "0 < (\<Sum>k\<leftarrow>[0..<m]. exp (at2 a i k))"
    using assms(4) by (intro sum_list_exp_pos) simp
  ultimately show ?thesis
    by (simp add: sum_list_divide)
qed









section \<open>The identity cases of the dropout\<close>

lemma dropout_forward_identity:
  assumes "m = Dropout 0 \<or> \<not> train"
  shows "dropout_forward bern m train g a = (a, g)"
  using assms by (cases m) (auto simp add: dropout_forward_def)

section \<open>The batch axis\<close>

lemma init_mixing_layer: "init mix_parameters 1 1 1 1 1 0 ''SAME'' = Inr mixing_layer"
  by (simp add: init_defs mix_parameters_def const_init_def py_pow_half_def mixing_layer_def)

lemma table_cong:
  assumes "\<And>i j. i < n \<Longrightarrow> j < m \<Longrightarrow> f i j = g i j"
  shows "concat (map (\<lambda>i. map (f i) [0..<m]) [0..<n]) = concat (map (\<lambda>i. map (g i) [0..<m]) [0..<n])"
  using assms by (auto intro!: arg_cong [where f = concat])

lemma conv_pointwise:
  assumes "shape x = [B, 1, 1, 1, 1]" "in_channels m = 1" "out_channels m = 1"
    "kernel_size m = 1" "stride m = 1" "padding m = 0"
  shows "conv3d_forward m x =
    Inr \<lparr>shape = [B, 1, 1, 1, 1], data = map (\<lambda>b. bias m 0 + weight m 0 0 0 0 0 * data x ! b) [0..<B]\<rparr>"
  using assms
  by (simp add: conv3d_forward_def conv3d_batched_def Let_def padded5_def at5_def ravel_def)

lemma permute_batch_only:
  assumes "shape x = [B, 1, 1, 1, 1]" "length (data x) = B"
  shows "permute [0, 2, 3, 4, 1] x = Inr x" "permute [0, 4, 1, 2, 3] x = Inr x"
proof -
  have "map ((!) (data x)) [0..<B] = data x"
    using assms(2) map_nth [of "data x"] by simp
  then show "permute [0, 2, 3, 4, 1] x = Inr x" "permute [0, 4, 1, 2, 3] x = Inr x"
    using assms(1) by (simp_all add: permute_def Let_def upt_5 index_of_def ravel_def)
qed

lemma transpose_column:
  assumes "shape x = [B, 1]" "length (data x) = B"
  shows "transpose_dims 0 1 x = Inr \<lparr>shape = [1, B], data = data x\<rparr>"
proof -
  have "map (\<lambda>n. data x ! ravel [B, 1] (map (\<lambda>a. unravel [1, B] n ! index_of a [1, 0]) [0..<2])) [0..<B]
      = map ((!) (data x)) [0..<B]"
    by (rule map_cong) (simp_all add: upt_2 index_of_def ravel_def)
  moreover have "map ((!) (data x)) [0..<B] = data x"
    using assms(2) map_nth [of "data x"] by simp
  ultimately show ?thesis
    using assms(1) by (simp add: transpose_dims_def permute_def Let_def upt_2)
qed

lemma split_single_head:
  assumes "shape x = [B, 1, 1, 1, 1]"
  shows "split_heads x 1 = Inr \<lparr>shape = [B, 1, 1, 1, 1, 1], data = data x\<rparr>"
    and "flatten \<lparr>shape = [B, 1, 1, 1, 1, 1], data = data x\<rparr> 0 4 = Inr \<lparr>shape = [B, 1], data = data x\<rparr>"
proof -
  have "shape x = [B, 1, 1, 1, nat 1 * 1]"
    using assms by simp
  from split_heads_shape [OF this]
  show "split_heads x 1 = Inr \<lparr>shape = [B, 1, 1, 1, 1, 1], data = data x\<rparr>"
    by simp
  show "flatten \<lparr>shape = [B, 1, 1, 1, 1, 1], data = data x\<rparr> 0 4 = Inr \<lparr>shape = [B, 1], data = data x\<rparr>"
    by (simp add: flatten_04)
qed

lemma sum_list_nth_upt: "(\<Sum>k\<leftarrow>[0..<length xs]. (xs ! k :: real)) = sum_list xs"
  using map_nth [of xs] by (metis)

lemma mixing_attend:
  assumes "length xs = B" "0 < B"
  shows "\<exists>att. attend mixing_layer \<lparr>shape = [B, 1, 1, 1, 1], data = xs\<rparr> = Inr att \<and>
    A_soft att = \<lparr>shape = [B, B],
      data = concat (map (\<lambda>i. map (\<lambda>j. 1 / real B) [0..<B]) [0..<B])\<rparr> \<and>
    v_flat att = \<lparr>shape = [B, 1], data = xs\<rparr> \<and> q_dims att = (B, 1, 1, 1)"
proof -
  define x where "x = \<lparr>shape = [B, 1, 1, 1, 1], data = xs\<rparr>"
  define z where "z = \<lparr>shape = [B, 1, 1, 1, 1], data = replicate B (0::real)\<rparr>"
  have sx: "shape x = [B, 1, 1, 1, 1]" "length (data x) = B" "data x = xs"
    and sz: "shape z = [B, 1, 1, 1, 1]" "length (data z) = B"
    using assms by (simp_all add: x_def z_def)
  have id: "map ((!) xs) [0..<B] = xs"
    using assms(1) map_nth [of xs] by simp
  have q0: "query_projection mixing_layer x = Inr (Some x)"
    using conv_pointwise [OF sx(1), of "\<lparr>in_channels = 1, out_channels = 1, kernel_size = 1,
        stride = 1, padding = 0, weight = (\<lambda>a c i j l. 1), bias = (\<lambda>a. 0)\<rparr>"] id
    by (simp add: query_projection_def mixing_layer_def call_module_def ebind_def x_def)
  have k0: "conv3d_forward (KeyTransform mixing_layer) x = Inr z"
    using conv_pointwise [OF sx(1), of "KeyTransform mixing_layer"]
    by (simp add: mixing_layer_def z_def map_replicate_const)
  have v0: "conv3d_forward (ValueTransform mixing_layer) x = Inr x"
    using conv_pointwise [OF sx(1), of "ValueTransform mixing_layer"] id
    by (simp add: mixing_layer_def x_def)
  note pz = permute_batch_only(1) [OF sz]
  note px = permute_batch_only(1) [OF sx(1,2)]
  have nh: "num_heads mixing_layer = 1" and sc: "scale mixing_layer = PyFloat 1"
    by (simp_all add: mixing_layer_def)
  define k3 where "k3 = \<lparr>shape = [B, 1], data = replicate B (0::real)\<rparr>"
  define x3 where "x3 = \<lparr>shape = [B, 1], data = xs\<rparr>"
  have dz: "data z = replicate B 0" and dx: "data x = xs"
    by (simp_all add: z_def x_def)
  note hz = split_single_head [OF sz(1), unfolded dz, folded k3_def]
  note hx = split_single_head [OF sx(1), unfolded dx, folded x3_def]
  have q4: "div_scalar x3 (PyFloat 1) = Inr x3"
    by (simp add: div_scalar_def x3_def)
  define kT where "kT = \<lparr>shape = [1, B], data = replicate B (0::real)\<rparr>"
  have kT: "transpose_dims 0 1 k3 = Inr kT"
    using transpose_column [of k3 B] by (simp add: k3_def kT_def)
  define A0 where "A0 = \<lparr>shape = [B, B],
    data = concat (map (\<lambda>i. map (\<lambda>j. 0::real) [0..<B]) [0..<B])\<rparr>"
  have A0: "matmul x3 kT = Inr A0"
    unfolding A0_def
    by (simp add: matmul_def x3_def kT_def at2_def) (rule table_cong, simp)
  define A1 where "A1 = \<lparr>shape = [B, B],
    data = concat (map (\<lambda>i. map (\<lambda>j. 1 / real B) [0..<B]) [0..<B])\<rparr>"
  have e: "at2 A0 i j = 0" if "i < B" "j < B" for i j
    using that by (simp add: at2_def A0_def nth_table)
  have "(\<Sum>k\<leftarrow>[0..<B]. exp (at2 A0 i k)) = real B" if "i < B" for i
  proof -
    have "(\<Sum>k\<leftarrow>[0..<B]. exp (at2 A0 i k)) = (\<Sum>k\<leftarrow>[0..<B]. 1)"
      using that by (intro arg_cong [where f = sum_list] map_cong) (simp_all add: e)
    also have "\<dots> = real B"
      by (simp add: sum_list_triv)
    finally show ?thesis .
  qed
  then have A1: "softmax A0 1 = Inr A1"
    unfolding A1_def
    by (simp add: softmax_def A0_def [THEN arg_cong [where f = shape]]) (rule table_cong, simp add: e)
  have "attend mixing_layer x = Inr \<lparr>q_proj = x, k_proj = z, v_proj = x, q_flat = x3, k_flat = k3,
      v_flat = x3, q_scaled = x3, A_sim = A0, A_soft = A1,
      q_dims = (shape x ! 0, shape x ! 1, shape x ! 2, shape x ! 3)\<rparr>"
    by (simp only: attend_def q0 k0 v0 pz px nh sc hz hx q4 kT A0 A1 ebind_def sum.case option.case)
  then show ?thesis
    by (simp add: x_def A1_def x3_def)
qed

lemma mixing_forward:
  assumes "length xs = B" "0 < B"
  shows "forward bern mixing_layer g \<lparr>shape = [B, 1, 1, 1, 1], data = xs\<rparr> =
    (Inr \<lparr>shape = [B, 1, 1, 1, 1], data = replicate B (sum_list xs / real B)\<rparr>, g)"
proof -
  define A1 where "A1 = \<lparr>shape = [B, B],
    data = concat (map (\<lambda>i. map (\<lambda>j. 1 / real B) [0..<B]) [0..<B])\<rparr>"
  define x3 where "x3 = \<lparr>shape = [B, 1], data = xs\<rparr>"
  define y where "y = \<lparr>shape = [B, 1, 1, 1, 1], data = replicate B (sum_list xs / real B)\<rparr>"
  from mixing_attend [OF assms] obtain att where att:
    "attend mixing_layer \<lparr>shape = [B, 1, 1, 1, 1], data = xs\<rparr> = Inr att"
    "A_soft att = A1" "v_flat att = x3" "q_dims att = (B, 1, 1, 1)"
    unfolding A1_def x3_def by blast
  have s: "(\<Sum>k\<leftarrow>[0..<B]. at2 A1 i k * at2 x3 k 0) = sum_list xs / real B" if "i < B" for i
  proof -
    have "(\<Sum>k\<leftarrow>[0..<B]. at2 A1 i k * at2 x3 k 0) = (\<Sum>k\<leftarrow>[0..<B]. 1 / real B * xs ! k)"
      using that
      by (intro arg_cong [where f = sum_list] map_cong) (simp_all add: at2_def A1_def x3_def nth_table)
    also have "\<dots> = 1 / real B * (\<Sum>k\<leftarrow>[0..<B]. xs ! k)"
      by (simp only: sum_list_const_mult)
    also have "(\<Sum>k\<leftarrow>[0..<B]. xs ! k) = sum_list xs"
      using sum_list_nth_upt [of xs] assms(1) by simp
    finally show ?thesis
      by simp
  qed
  have "map (\<lambda>i. \<Sum>k\<leftarrow>[0..<B]. at2 A1 i k * at2 x3 k 0) [0..<B] = map (\<lambda>i. sum_list xs / real B) [0..<B]"
    by (rule map_cong) (simp_all add: s)
  then have O1: "matmul A1 x3 = Inr \<lparr>shape = [B, 1], data = replicate B (sum_list xs / real B)\<rparr>"
    by (simp add: matmul_def A1_def [THEN arg_cong [where f = shape]]
      x3_def [THEN arg_cong [where f = shape]] map_replicate_const)
  have "prod_list [B, 1, 1, 1, 1] =
      prod_list (shape \<lparr>shape = [B, 1], data = replicate B (sum_list xs / real B)\<rparr>)"
    by simp
  from view_sizes [OF this]
  have O2: "view [int B, int 1, int 1, int 1, int (last (shape x3)) * num_heads mixing_layer]
      \<lparr>shape = [B, 1], data = replicate B (sum_list xs / real B)\<rparr> = Inr y"
    by (simp add: y_def x3_def mixing_layer_def)
  have sy: "shape y = [B, 1, 1, 1, 1]" "length (data y) = B"
    by (simp_all add: y_def)
  note O3 = permute_batch_only(2) [OF sy]
  have "map ((!) (data y)) [0..<B] = data y"
    using sy(2) map_nth [of "data y"] by simp
  then have O4: "conv3d_forward (outputConv mixing_layer) y = Inr y"
    using conv_pointwise [OF sy(1), of "outputConv mixing_layer"]
    by (simp add: mixing_layer_def y_def)
  have p: "project_output mixing_layer att A1 = Inr y"
    by (simp only: project_output_def att(3,4) O1 O2 O3 O4 ebind_def sum.case prod.case)
  have d: "dropout_forward bern (attention_dropout mixing_layer) (training mixing_layer) g A1 = (A1, g)"
    by (rule dropout_forward_identity) (simp add: mixing_layer_def)
  show ?thesis
    by (simp only: forward_def att(1,2) sum.case d Let_def prod.case p y_def)
qed

lemma batch_element_single:
  assumes "i < length xs"
  shows "batch_element \<lparr>shape = [length xs, 1, 1, 1, 1], data = xs\<rparr> i = [xs ! i]"
  using assms by (simp add: batch_element_def take_Suc_conv_app_nth [of 0] Cons_nth_drop_Suc [symmetric])

lemma sum_list_update_real:
  "k < length xs \<Longrightarrow> sum_list (xs[k := x]) = sum_list xs + x - (xs ! k :: real)"
  by (induction xs arbitrary: k) (auto split: nat.splits)

text \<open>
  C1, as amended. The forward pass is not independent across the batch: the rows of the
  flattened key and value hold all batch elements, and the softmax of each query row
  runs over all of them. For the constructed one-channel layer \<open>mixing_layer\<close>, every batch
  size B and every pair \<open>i \<noteq> j\<close> of batch elements there are two input batches that differ
  in element \<open>j\<close> only and whose outputs differ in element \<open>i\<close> (the batch of zeros and
  the batch with B at \<open>j\<close>: the outputs are the means, 0 and 1).
\<close>

theorem batch_mixing:
  assumes "i < B" and "j < B" and "i \<noteq> j"
  shows "init mix_parameters 1 1 1 1 1 0 ''SAME'' = Inr mixing_layer \<and>
    (\<exists>xs v y y'. length xs = B \<and> v \<noteq> xs ! j \<and>
       fst (forward bernoulli mixing_layer g \<lparr>shape = [B, 1, 1, 1, 1], data = xs\<rparr>) = Inr y \<and>
       fst (forward bernoulli mixing_layer g \<lparr>shape = [B, 1, 1, 1, 1], data = xs[j := v]\<rparr>) = Inr y' \<and>
       batch_element \<lparr>shape = [B, 1, 1, 1, 1], data = xs[j := v]\<rparr> i =
         batch_element \<lparr>shape = [B, 1, 1, 1, 1], data = xs\<rparr> i \<and>
       batch_element y' i \<noteq> batch_element y i)"
proof -
  define xs where "xs = replicate B (0::real)"
  define v where "v = real B"
  have B: "0 < B"
    using assms(1) by simp
  have l: "length xs = B" "length (xs[j := v]) = B"
    by (simp_all add: xs_def)
  have ne: "v \<noteq> xs ! j"
    using assms(2) B by (simp add: xs_def v_def)
  have s0: "sum_list xs = 0"
    by (simp add: xs_def sum_list_replicate)
  have xj: "xs ! j = 0"
    using assms(2) by (simp add: xs_def)
  have "sum_list (xs[j := v]) = sum_list xs + v - xs ! j"
    using assms(2) l by (simp add: sum_list_update_real)
  then have "sum_list (xs[j := v]) = real B"
    by (simp add: s0 xj v_def)
  then have s1: "sum_list (xs[j := v]) / real B = 1"
    using B by simp
  have y: "forward bernoulli mixing_layer g \<lparr>shape = [B, 1, 1, 1, 1], data = xs\<rparr> =
      (Inr \<lparr>shape = [B, 1, 1, 1, 1], data = replicate B 0\<rparr>, g)"
    using mixing_forward [OF l(1) B, of bernoulli g] by (simp add: s0)
  have y': "forward bernoulli mixing_layer g \<lparr>shape = [B, 1, 1, 1, 1], data = xs[j := v]\<rparr> =
      (Inr \<lparr>shape = [B, 1, 1, 1, 1], data = replicate B 1\<rparr>, g)"
    using mixing_forward [OF l(2) B, of bernoulli g] by (simp add: s1)
  have e1: "batch_element \<lparr>shape = [B, 1, 1, 1, 1], data = xs[j := v]\<rparr> i = [xs ! i]"
    using batch_element_single [of i "xs[j := v]"] assms l by simp
  have e2: "batch_element \<lparr>shape = [B, 1, 1, 1, 1], data = xs\<rparr> i = [xs ! i]"
    using batch_element_single [of i xs] assms l by simp
  have e3: "batch_element \<lparr>shape = [B, 1, 1, 1, 1], data = replicate B c\<rparr> i = [c]" for c :: real
    using batch_element_single [of i "replicate B c"] assms(1) by simp
  have "length xs = B \<and> v \<noteq> xs ! j \<and>
       fst (forward bernoulli mixing_layer g \<lparr>shape = [B, 1, 1, 1, 1], data = xs\<rparr>) =
         Inr \<lparr>shape = [B, 1, 1, 1, 1], data = replicate B 0\<rparr> \<and>
       fst (forward bernoulli mixing_layer g \<lparr>shape = [B, 1, 1, 1, 1], data = xs[j := v]\<rparr>) =
         Inr \<lparr>shape = [B, 1, 1, 1, 1], data = replicate B 1\<rparr> \<and>
       batch_element \<lparr>shape = [B, 1, 1, 1, 1], data = xs[j := v]\<rparr> i =
         batch_element \<lparr>shape = [B, 1, 1, 1, 1], data = xs\<rparr> i \<and>
       batch_element \<lparr>shape = [B, 1, 1, 1, 1], data = replicate B 1\<rparr> i \<noteq>
         batch_element \<lparr>shape = [B, 1, 1, 1, 1], data = replicate B (0::real)\<rparr> i"
    using l ne e1 e2 y y' e3 [of 0] e3 [of 1] by simp
  then show ?thesis
    using init_mixing_layer by blast
qed

theorem batch_mixing_witness:
  "(1::nat) < 4 \<and> (3::nat) < 4 \<and> (1::nat) \<noteq> 3 \<and>
   init mix_parameters 1 1 1 1 1 0 ''SAME'' = Inr mixing_layer \<and>
   (\<exists>xs v y y'. length xs = 4 \<and> v \<noteq> xs ! 3 \<and>
      fst (forward no_mask mixing_layer () \<lparr>shape = [4, 1, 1, 1, 1], data = xs\<rparr>) = Inr y \<and>
      fst (forward no_mask mixing_layer () \<lparr>shape = [4, 1, 1, 1, 1], data = xs[3 := v]\<rparr>) = Inr y' \<and>
      batch_element \<lparr>shape = [4, 1, 1, 1, 1], data = xs[3 := v]\<rparr> 1 =
        batch_element \<lparr>shape = [4, 1, 1, 1, 1], data = xs\<rparr> 1 \<and>
      batch_element y' 1 \<noteq> batch_element y 1)"
  using batch_mixing [of 1 4 3 no_mask "()"] by simp

text \<open>
  C1 as stated fails for B = 2: the inputs [0, 0] and [0, 2] agree on batch element 0,
  and the outputs are [0, 0] and [1, 1].
\<close>

theorem batch_independence_counterexample:
  "init mix_parameters 1 1 1 1 1 0 ''SAME'' = Inr mixing_layer \<and>
   fst (forward no_mask mixing_layer () \<lparr>shape = [2, 1, 1, 1, 1], data = [0, 0]\<rparr>) =
     Inr \<lparr>shape = [2, 1, 1, 1, 1], data = [0, 0]\<rparr> \<and>
   fst (forward no_mask mixing_layer () \<lparr>shape = [2, 1, 1, 1, 1], data = [0, 2]\<rparr>) =
     Inr \<lparr>shape = [2, 1, 1, 1, 1], data = [1, 1]\<rparr> \<and>
   batch_element \<lparr>shape = [2, 1, 1, 1, 1], data = [0, 0]\<rparr> 0 = [0] \<and>
   batch_element \<lparr>shape = [2, 1, 1, 1, 1], data = [0, 2]\<rparr> 0 = [0] \<and>
   batch_element \<lparr>shape = [2, 1, 1, 1, 1], data = [0, 0]\<rparr> 0 = [0] \<and>
   batch_element \<lparr>shape = [2, 1, 1, 1, 1], data = [1, 1]\<rparr> 0 = [1]"
  using mixing_forward [of "[0, 0]" 2 no_mask "()"] mixing_forward [of "[0, 2]" 2 no_mask "()"]
  by (simp add: init_mixing_layer batch_element_def numeral_2_eq_2)

section \<open>Determinism\<close>

lemma attend_dropout: "attend (L\<lparr>attention_dropout := d\<rparr>) x = attend L x"
  by (simp add: attend_def query_projection_def)

lemma project_output_dropout:
  "project_output (L\<lparr>attention_dropout := d\<rparr>) att A = project_output L att A"
  by (simp add: project_output_def)

lemma mixing_project_single:
  assumes "v_flat att = \<lparr>shape = [1, 1], data = [x]\<rparr>" "q_dims att = (1, 1, 1, 1)"
  shows "project_output mixing_layer att \<lparr>shape = [1, 1], data = [a]\<rparr> =
    Inr \<lparr>shape = [1, 1, 1, 1, 1], data = [a * x]\<rparr>"
proof -
  have O1: "matmul \<lparr>shape = [1, 1], data = [a]\<rparr> \<lparr>shape = [1, 1], data = [x]\<rparr> =
      Inr \<lparr>shape = [1, 1], data = [a * x]\<rparr>"
    by (simp add: matmul_def at2_def)
  define y where "y = \<lparr>shape = [1, 1, 1, 1, 1], data = [a * x]\<rparr>"
  have "prod_list [1, 1, 1, 1, 1] = prod_list (shape \<lparr>shape = [1, 1], data = [a * x]\<rparr>)"
    by simp
  from view_sizes [OF this]
  have O2: "view [int 1, int 1, int 1, int 1,
        int (last (shape \<lparr>shape = [1, 1], data = [x]\<rparr>)) * num_heads mixing_layer]
      \<lparr>shape = [1, 1], data = [a * x]\<rparr> = Inr y"
    by (simp add: y_def mixing_layer_def)
  have sy: "shape y = [1, 1, 1, 1, 1]" "length (data y) = 1"
    by (simp_all add: y_def)
  note O3 = permute_batch_only(2) [OF sy]
  have O4: "conv3d_forward (outputConv mixing_layer) y = Inr y"
    using conv_pointwise [OF sy(1), of "outputConv mixing_layer"]
    by (simp add: mixing_layer_def y_def)
  have "project_output mixing_layer att \<lparr>shape = [1, 1], data = [a]\<rparr> = Inr y"
    by (simp only: project_output_def assms O1 O2 O3 O4 ebind_def sum.case prod.case)
  then show ?thesis
    by (simp only: y_def)
qed

text \<open>
  The hypothesis of C8 is needed: in training mode with probability 1/2 the output of
  the same layer on the same input is 0 when the sampler drops the attention weight and
  2 when it keeps it, and the call advances the generator; in evaluation mode it is 1
  and the generator stays.
\<close>

lemma dropout_draw:
  "forward drop_all (mixing_layer\<lparr>attention_dropout := Dropout (1 / 2)\<rparr>) 3
       \<lparr>shape = [1, 1, 1, 1, 1], data = [1]\<rparr> =
     (Inr \<lparr>shape = [1, 1, 1, 1, 1], data = [0]\<rparr>, 4) \<and>
   forward no_mask (mixing_layer\<lparr>attention_dropout := Dropout (1 / 2)\<rparr>) ()
       \<lparr>shape = [1, 1, 1, 1, 1], data = [1]\<rparr> =
     (Inr \<lparr>shape = [1, 1, 1, 1, 1], data = [2]\<rparr>, ()) \<and>
   forward drop_all (mixing_layer\<lparr>attention_dropout := Dropout (1 / 2), training := False\<rparr>) 3
       \<lparr>shape = [1, 1, 1, 1, 1], data = [1]\<rparr> =
     (Inr \<lparr>shape = [1, 1, 1, 1, 1], data = [1]\<rparr>, 3)"
proof -
  from mixing_attend [of "[1]" 1] obtain att where att:
    "attend mixing_layer \<lparr>shape = [1, 1, 1, 1, 1], data = [1]\<rparr> = Inr att"
    "A_soft att = \<lparr>shape = [1, 1], data = [1]\<rparr>"
    "v_flat att = \<lparr>shape = [1, 1], data = [1]\<rparr>" "q_dims att = (1, 1, 1, 1)"
    by auto
  note p = mixing_project_single [OF att(3,4)]
  have t: "training mixing_layer" "attention_dropout mixing_layer = Dropout 0"
    by (simp_all add: mixing_layer_def)
  show ?thesis
    using p [of 0] p [of 2] p [of 1] t att(1,2)
    by (simp add: forward_def attend_dropout attend_training project_output_dropout
      project_output_training dropout_forward_def drop_all_def no_mask_def)
qed

text \<open>
  C8. With dropout probability 0, or in evaluation mode, the output of \<open>forward\<close> is the
  same for every state of the random generator and every sampler, and the generator is
  left as it was: two calls with the same parameters and input return the same tensor.
\<close>

theorem forward_deterministic:
  assumes "attention_dropout L = Dropout 0 \<or> \<not> training L"
  shows "fst (forward bernoulli L g inputs) = fst (forward bernoulli' L g' inputs) \<and>
    snd (forward bernoulli L g inputs) = g"
  using assms
  by (cases "attend L inputs") (simp_all add: forward_def dropout_forward_identity)

theorem forward_deterministic_witness:
  "attention_dropout down_layer = Dropout 0 \<and>
   fst (forward drop_all down_layer 3 (zeros [1, 1, 2, 2, 2])) =
     fst (forward no_mask down_layer () (zeros [1, 1, 2, 2, 2])) \<and>
   snd (forward drop_all down_layer 3 (zeros [1, 1, 2, 2, 2])) = 3 \<and>
   training (down_layer\<lparr>attention_dropout := Dropout (1 / 2), training := False\<rparr>) = False \<and>
   fst (forward drop_all (down_layer\<lparr>attention_dropout := Dropout (1 / 2), training := False\<rparr>)
          3 (zeros [1, 1, 2, 2, 2])) =
     fst (forward drop_all (down_layer\<lparr>attention_dropout := Dropout (1 / 2), training := False\<rparr>)
          4 (zeros [1, 1, 2, 2, 2]))"
proof -
  have p: "attention_dropout down_layer = Dropout 0"
    by (simp add: down_layer_def)
  have e: "\<not> training (down_layer\<lparr>attention_dropout := Dropout (1 / 2), training := False\<rparr>)"
    by simp
  from forward_deterministic [of down_layer drop_all 3 "zeros [1, 1, 2, 2, 2]" no_mask "()"]
    forward_deterministic [of "down_layer\<lparr>attention_dropout := Dropout (1 / 2), training := False\<rparr>"
      drop_all 3 "zeros [1, 1, 2, 2, 2]" drop_all 4]
  show ?thesis
    using p e by simp
qed

section \<open>The frame of a call\<close>

text \<open>
  Every statement of \<open>forward\<close> but the dropout is a \<open>frame\<close>.
\<close>

lemma frame_sbind:
  assumes "frame m" "\<And>x. frame (f x)"
  shows "frame (sbind m f)"
  unfolding frame_def
proof (intro allI)
  fix s
  obtain r s1 where m: "m s = (r, s1)"
    by (cases "m s")
  from assms(1) m have 1: "next_address s \<le> next_address s1"
    "\<And>a. a < next_address s \<Longrightarrow> objects s1 a = objects s a" "generator s1 = generator s"
    by (auto simp add: frame_def dest: spec [of _ s])
  show "next_address s \<le> next_address (snd (sbind m f s)) \<and>
          (\<forall>a < next_address s. objects (snd (sbind m f s)) a = objects s a) \<and>
          generator (snd (sbind m f s)) = generator s"
  proof (cases r)
    case (Inl e)
    with m 1 show ?thesis
      by (simp add: sbind_def)
  next
    case (Inr x)
    from assms(2) [of x] have 2: "next_address s1 \<le> next_address (snd (f x s1))"
      "\<And>a. a < next_address s1 \<Longrightarrow> objects (snd (f x s1)) a = objects s1 a"
      "generator (snd (f x s1)) = generator s1"
      by (auto simp add: frame_def dest: spec [of _ s1])
    from Inr m have "sbind m f s = f x s1"
      by (simp add: sbind_def)
    with 1 2 show ?thesis
      by auto
  qed
qed

lemma frame_returning: "frame (returning r)"
  by (simp add: frame_def returning_def)

lemma frame_new_tensor: "frame (new_tensor t)"
  by (simp add: frame_def new_tensor_def allocate_def)

lemma frame_get_tensor: "frame (get_tensor a)"
  by (simp add: frame_def get_tensor_def split: option.splits object.splits)

lemma frame_get_attr: "frame (get_attr f self)"
  by (simp add: frame_def get_attr_def split: option.splits object.splits)

lemma frame_apply1: "frame (apply1 f a)"
  unfolding apply1_def
  by (intro frame_sbind frame_get_tensor frame_returning frame_new_tensor)

lemma frame_apply2: "frame (apply2 f a b)"
  unfolding apply2_def
  by (intro frame_sbind frame_get_tensor frame_returning frame_new_tensor)

lemma frame_call_conv: "frame (call_conv attr self a)"
  unfolding call_conv_def
  by (intro frame_sbind frame_get_attr frame_apply1)

lemma frame_split_heads_store: "frame (split_heads_store self a)"
  unfolding split_heads_store_def
  by (intro frame_sbind frame_get_attr frame_apply1)

lemma frame_if: "frame m \<Longrightarrow> frame n \<Longrightarrow> frame (if c then m else n)"
  by simp

lemma frame_case_option:
  "frame m \<Longrightarrow> (\<And>x. frame (f x)) \<Longrightarrow> frame (case v of None \<Rightarrow> m | Some x \<Rightarrow> f x)"
  by (cases v) simp_all

lemma frame_query_store: "frame (query_store self inputs)"
  unfolding query_store_def
  by (intro frame_sbind frame_get_attr frame_if frame_case_option frame_returning frame_apply1
      frame_get_tensor)

lemma frame_attend_store: "frame (attend_store self inputs)"
  unfolding attend_store_def
  by (intro frame_sbind frame_query_store frame_call_conv frame_apply1 frame_apply2
      frame_returning frame_get_tensor frame_split_heads_store frame_get_attr)

lemma frame_project_store: "frame (project_store self A v dims)"
  unfolding project_store_def
  by (cases dims)
    (auto intro!: frame_sbind frame_call_conv frame_apply1 frame_apply2 frame_get_tensor
      frame_get_attr)

text \<open>
  What the statements return on a store that holds the layer and their arguments, and
  the pass over the store against \<open>forward\<close>.
\<close>

lemma objects_allocate:
  "objects (allocate t s) a = (if a = next_address s then Some (TensorObject t) else objects s a)"
  by (simp add: allocate_def)

lemma next_address_allocate: "next_address (allocate t s) = Suc (next_address s)"
  by (simp add: allocate_def)

lemma generator_allocate: "generator (allocate t s) = generator s"
  by (simp add: allocate_def)

lemma apply1_run:
  "apply1 f a s =
     (case objects s a of
        Some (TensorObject t) \<Rightarrow>
          (case f t of Inl e \<Rightarrow> (Inl e, s) | Inr y \<Rightarrow> (Inr (next_address s), allocate y s))
      | _ \<Rightarrow> (Inl TypeError, s))"
  by (simp add: apply1_def sbind_def get_tensor_def returning_def new_tensor_def
      split: option.splits object.splits sum.splits)

lemma apply2_run:
  "apply2 f a b s =
     (case objects s a of
        Some (TensorObject t) \<Rightarrow>
          (case objects s b of
             Some (TensorObject u) \<Rightarrow>
               (case f t u of Inl e \<Rightarrow> (Inl e, s) | Inr y \<Rightarrow> (Inr (next_address s), allocate y s))
           | _ \<Rightarrow> (Inl TypeError, s))
      | _ \<Rightarrow> (Inl TypeError, s))"
  by (simp add: apply2_def sbind_def get_tensor_def returning_def new_tensor_def
      split: option.splits object.splits sum.splits)

lemma get_attr_run:
  "objects s self = Some (LayerObject L) \<Longrightarrow> get_attr f self s = (Inr (f L), s)"
  by (simp add: get_attr_def)

lemma get_tensor_run:
  "objects s a = Some (TensorObject t) \<Longrightarrow> get_tensor a s = (Inr t, s)"
  by (simp add: get_tensor_def)

lemma query_store_run:
  assumes "objects s self = Some (LayerObject L)" "objects s inputs = Some (TensorObject x)"
  shows "query_store self inputs s =
    (case query_projection L x of
       Inl e \<Rightarrow> (Inl e, s)
     | Inr None \<Rightarrow> (Inr None, s)
     | Inr (Some q) \<Rightarrow> (Inr (Some (next_address s)), allocate q s))"
  using assms
  by (auto simp add: query_store_def query_projection_def sbind_def get_attr_run get_tensor_run
      apply1_run returning_def ebind_def split: option.splits sum.splits)

lemma call_conv_run:
  assumes "objects s self = Some (LayerObject L)" "objects s a = Some (TensorObject t)"
  shows "call_conv attr self a s =
    (case conv3d_forward (attr L) t of
       Inl e \<Rightarrow> (Inl e, s)
     | Inr y \<Rightarrow> (Inr (next_address s), allocate y s))"
  using assms by (simp add: call_conv_def sbind_def get_attr_run apply1_run)

lemma split_heads_store_run:
  assumes "objects s self = Some (LayerObject L)" "objects s a = Some (TensorObject t)"
  shows "split_heads_store self a s =
    (case split_heads t (num_heads L) of
       Inl e \<Rightarrow> (Inl e, s)
     | Inr y \<Rightarrow> (Inr (next_address s), allocate y s))"
  using assms by (simp add: split_heads_store_def sbind_def get_attr_run apply1_run)

lemma attend_store_refines:
  assumes "objects s self = Some (LayerObject L)" "objects s inputs = Some (TensorObject x)"
    "self < next_address s" "inputs < next_address s"
  shows "case attend L x of
      Inl e \<Rightarrow> fst (attend_store self inputs s) = Inl e
    | Inr att \<Rightarrow>
        (\<exists>A1 v. fst (attend_store self inputs s) = Inr (A1, v, q_dims att) \<and>
           objects (snd (attend_store self inputs s)) A1 = Some (TensorObject (A_soft att)) \<and>
           objects (snd (attend_store self inputs s)) v = Some (TensorObject (v_flat att)) \<and>
           A1 < next_address (snd (attend_store self inputs s)) \<and>
           v < next_address (snd (attend_store self inputs s)))"
  using assms
  unfolding attend_store_def attend_def
  by (simp add: sbind_def query_store_run call_conv_run split_heads_store_run apply1_run
      apply2_run get_attr_run get_tensor_run returning_def ebind_def objects_allocate
      next_address_allocate split: sum.splits option.splits)

lemma project_store_refines:
  assumes "objects s self = Some (LayerObject L)" "objects s A = Some (TensorObject tA)"
    "objects s v = Some (TensorObject (v_flat att))"
    "self < next_address s" "A < next_address s" "v < next_address s"
  shows "case project_output L att tA of
      Inl e \<Rightarrow> fst (project_store self A v (q_dims att) s) = Inl e
    | Inr y \<Rightarrow>
        (\<exists>a. fst (project_store self A v (q_dims att) s) = Inr a \<and>
           objects (snd (project_store self A v (q_dims att) s)) a = Some (TensorObject y))"
  using assms
  unfolding project_store_def project_output_def
  by (simp add: sbind_def call_conv_run apply1_run apply2_run get_attr_run get_tensor_run
      returning_def ebind_def objects_allocate next_address_allocate
      split: sum.splits option.splits prod.splits)

lemma dropout_store_run:
  assumes "objects s self = Some (LayerObject L)" "objects s a = Some (TensorObject t)"
  shows "dropout_store bernoulli False self a s =
    (Inr (next_address s),
     allocate (fst (dropout_forward bernoulli (attention_dropout L) (training L) (generator s) t))
       (s\<lparr>generator :=
            snd (dropout_forward bernoulli (attention_dropout L) (training L) (generator s) t)\<rparr>))"
  using assms
  by (simp add: dropout_store_def sbind_def get_attr_run get_tensor_run new_tensor_def
      case_prod_beta allocate_def)

lemma frameD:
  assumes "frame m" "m s = (r, s')"
  shows "next_address s \<le> next_address s'" "\<And>a. a < next_address s \<Longrightarrow> objects s' a = objects s a"
    "generator s' = generator s"
  using assms by (auto simp add: frame_def dest: spec [of _ s])

lemma dropout_generator:
  "snd (dropout_forward bernoulli m train g a) = g \<or>
   (\<exists>p. m = Dropout p \<and> train \<and> p \<noteq> 0 \<and>
      snd (dropout_forward bernoulli m train g a) = snd (bernoulli g (1 - p) (length (data a))))"
  by (cases m) (simp add: dropout_forward_def case_prod_beta)

lemma forward_store_refines:
  assumes L: "objects s self = Some (LayerObject L)" and x: "objects s inputs = Some (TensorObject x)"
    and wf: "self < next_address s" "inputs < next_address s"
    and run: "forward_store bernoulli self inputs s = (r, s')"
  shows "(\<forall>a < next_address s. objects s' a = objects s a) \<and>
    (case fst (forward bernoulli L (generator s) x) of
       Inl e \<Rightarrow> r = Inl e
     | Inr y \<Rightarrow> (\<exists>a. r = Inr a \<and> objects s' a = Some (TensorObject y))) \<and>
    generator s' = snd (forward bernoulli L (generator s) x)"
proof -
  obtain r1 s1 where a: "attend_store self inputs s = (r1, s1)"
    by (cases "attend_store self inputs s")
  note f1 = frameD [OF frame_attend_store a]
  note ref = attend_store_refines [OF L x wf, unfolded a fst_conv snd_conv]
  show ?thesis
  proof (cases "attend L x")
    case (Inl e)
    with ref have "r1 = Inl e"
      by simp
    with a run have "r = Inl e" "s' = s1"
      by (simp_all add: forward_store_def sbind_def)
    with f1 Inl show ?thesis
      by (simp add: forward_def)
  next
    case (Inr att)
    with ref obtain A1 v where r1: "r1 = Inr (A1, v, q_dims att)"
      and A1: "objects s1 A1 = Some (TensorObject (A_soft att))" "A1 < next_address s1"
      and v: "objects s1 v = Some (TensorObject (v_flat att))" "v < next_address s1"
      by auto
    define d where "d = dropout_forward bernoulli (attention_dropout L) (training L) (generator s) (A_soft att)"
    define s2 where "s2 = allocate (fst d) (s1\<lparr>generator := snd d\<rparr>)"
    have L1: "objects s1 self = Some (LayerObject L)"
      using f1(2) [OF wf(1)] L by simp
    have dr: "dropout_store bernoulli False self A1 s1 = (Inr (next_address s1), s2)"
      using dropout_store_run [OF L1 A1(1), of bernoulli] f1(3) by (simp add: s2_def d_def)
    have n2: "next_address s2 = Suc (next_address s1)" and g2: "generator s2 = snd d"
      and o2: "\<And>a. a < next_address s1 \<Longrightarrow> objects s2 a = objects s1 a"
      and A2: "objects s2 (next_address s1) = Some (TensorObject (fst d))"
      by (simp_all add: s2_def allocate_def)
    have self1: "self < next_address s1"
      using wf(1) f1(1) by simp
    have p: "forward_store bernoulli self inputs s =
        project_store self (next_address s1) v (q_dims att) s2"
      by (simp add: forward_store_def sbind_def a r1 dr)
    obtain r3 s3 where q: "project_store self (next_address s1) v (q_dims att) s2 = (r3, s3)"
      by (cases "project_store self (next_address s1) v (q_dims att) s2")
    from p q run have rs: "r = r3" "s' = s3"
      by simp_all
    note f3 = frameD [OF frame_project_store q]
    have "objects s2 self = Some (LayerObject L)" "objects s2 v = Some (TensorObject (v_flat att))"
      "self < next_address s2" "next_address s1 < next_address s2" "v < next_address s2"
      using o2 [OF self1] o2 [OF v(2)] L1 v self1 n2 by simp_all
    note pr = project_store_refines [OF this(1) A2 this(2-5), unfolded q fst_conv snd_conv]
    have fw: "forward bernoulli L (generator s) x = (project_output L att (fst d), snd d)"
      by (simp add: forward_def Inr d_def case_prod_beta)
    have "objects s3 a = objects s a" if "a < next_address s" for a
    proof -
      from that f1(1) have "a < next_address s1"
        by simp
      then have "a < next_address s2"
        using n2 by simp
      from f3(2) [OF this] o2 [OF \<open>a < next_address s1\<close>] f1(2) [OF that] show ?thesis
        by simp
    qed
    moreover have "generator s3 = snd d"
      using f3(3) g2 by simp
    ultimately show ?thesis
      using pr unfolding rs fw fst_conv snd_conv by simp
  qed
qed

text \<open>
  C9. A call of \<open>forward\<close> on a layer object and an input tensor of the store leaves
  every object that existed before the call as it was, among them the input tensor and
  the layer with the weights and biases of its four projections; what it adds are new
  tensor objects, one of which holds the tensor \<open>forward\<close> returns. The one other
  component of the store a call can change is the state of the random generator, and it
  changes it only through the draw of the dropout mask (not at all with probability 0 or
  in evaluation mode).
\<close>

theorem forward_frame:
  assumes "objects s self = Some (LayerObject L)" and "objects s inputs = Some (TensorObject x)"
    and "self < next_address s" and "inputs < next_address s"
    and "forward_store bernoulli self inputs s = (r, s')"
  shows "objects s' self = Some (LayerObject L) \<and> objects s' inputs = Some (TensorObject x) \<and>
    (\<forall>a < next_address s. objects s' a = objects s a) \<and>
    (case fst (forward bernoulli L (generator s) x) of
       Inl e \<Rightarrow> r = Inl e
     | Inr y \<Rightarrow> (\<exists>a. r = Inr a \<and> objects s' a = Some (TensorObject y))) \<and>
    generator s' = snd (forward bernoulli L (generator s) x) \<and>
    (attention_dropout L = Dropout 0 \<or> \<not> training L \<longrightarrow> generator s' = generator s) \<and>
    (generator s' = generator s \<or>
     (\<exists>att p. attend L x = Inr att \<and> attention_dropout L = Dropout p \<and> training L \<and> p \<noteq> 0 \<and>
        generator s' = snd (bernoulli (generator s) (1 - p) (length (data (A_soft att))))))"
proof -
  note R = forward_store_refines [OF assms]
  from R have o: "\<And>a. a < next_address s \<Longrightarrow> objects s' a = objects s a"
    and g: "generator s' = snd (forward bernoulli L (generator s) x)"
    by simp_all
  have 1: "objects s' self = Some (LayerObject L)" "objects s' inputs = Some (TensorObject x)"
    using o [OF assms(3)] o [OF assms(4)] assms(1,2) by simp_all
  have 2: "snd (forward bernoulli L (generator s) x) = generator s"
    if "attention_dropout L = Dropout 0 \<or> \<not> training L"
    using that by (cases "attend L x") (simp_all add: forward_def dropout_forward_identity)
  have 3: "snd (forward bernoulli L (generator s) x) = generator s \<or>
     (\<exists>att p. attend L x = Inr att \<and> attention_dropout L = Dropout p \<and> training L \<and> p \<noteq> 0 \<and>
        snd (forward bernoulli L (generator s) x) =
          snd (bernoulli (generator s) (1 - p) (length (data (A_soft att)))))"
  proof (cases "attend L x")
    case (Inl e)
    then show ?thesis
      by (simp add: forward_def)
  next
    case (Inr att)
    from dropout_generator [of bernoulli "attention_dropout L" "training L" "generator s" "A_soft att"]
    show ?thesis
      using Inr by (auto simp add: forward_def case_prod_beta)
  qed
  from R 1 2 3 show ?thesis
    unfolding g by blast
qed

lemma example_store_objects:
  "objects example_store 0 = Some (LayerObject half_layer)"
  "objects example_store 1 = Some (TensorObject \<lparr>shape = [1, 1, 1, 1, 1], data = [1]\<rparr>)"
  "next_address example_store = 2" "generator example_store = 3"
  by (simp_all add: example_store_def)

theorem forward_frame_witness:
  "objects example_store 0 = Some (LayerObject half_layer) \<and>
   objects example_store 1 = Some (TensorObject \<lparr>shape = [1, 1, 1, 1, 1], data = [1]\<rparr>) \<and>
   0 < next_address example_store \<and> 1 < next_address example_store \<and>
   objects (snd (forward_store drop_all 0 1 example_store)) 0 = Some (LayerObject half_layer) \<and>
   objects (snd (forward_store drop_all 0 1 example_store)) 1 =
     Some (TensorObject \<lparr>shape = [1, 1, 1, 1, 1], data = [1]\<rparr>) \<and>
   (\<exists>a. fst (forward_store drop_all 0 1 example_store) = Inr a \<and>
      objects (snd (forward_store drop_all 0 1 example_store)) a =
        Some (TensorObject \<lparr>shape = [1, 1, 1, 1, 1], data = [0]\<rparr>)) \<and>
   generator example_store = 3 \<and>
   generator (snd (forward_store drop_all 0 1 example_store)) = 4"
proof -
  have d: "forward drop_all half_layer 3 \<lparr>shape = [1, 1, 1, 1, 1], data = [1]\<rparr> =
      (Inr \<lparr>shape = [1, 1, 1, 1, 1], data = [0]\<rparr>, 4)"
    using dropout_draw by (simp add: half_layer_def)
  have w: "0 < next_address example_store" "1 < next_address example_store"
    by (simp_all add: example_store_objects)
  have p: "forward_store drop_all 0 1 example_store =
      (fst (forward_store drop_all 0 1 example_store), snd (forward_store drop_all 0 1 example_store))"
    by simp
  note T = forward_frame [OF example_store_objects(1,2) w p,
      unfolded example_store_objects(4) d fst_conv snd_conv sum.case]
  from T w example_store_objects show ?thesis
    by blast
qed

text \<open>
  The frame depends on the dropout not working in place: constructed with
  \<open>inplace=True\<close> it overwrites the tensor it is applied to.
\<close>

lemma dropout_inplace_flag:
  "objects (snd (dropout_store drop_all False 0 1 example_store)) 1 =
     Some (TensorObject \<lparr>shape = [1, 1, 1, 1, 1], data = [1]\<rparr>) \<and>
   objects (snd (dropout_store drop_all True 0 1 example_store)) 1 =
     Some (TensorObject \<lparr>shape = [1, 1, 1, 1, 1], data = [0]\<rparr>)"
  by (simp add: dropout_store_def sbind_def get_attr_def get_tensor_def example_store_def
      half_layer_def mixing_layer_def dropout_forward_def drop_all_def new_tensor_def
      set_tensor_def allocate_def)

end
